theory Spec2Isabelle
  imports Complex_Main "HOL-Library.Sublist"
begin

section \<open>Data model\<close>

text \<open>
  The repository holds two generations of one batch job: \<^verbatim>\<open>main.go\<close> (the earlier one, with
  a state file of sent ids) and \<^verbatim>\<open>unnamed/part_000\<close> (the later one, with camera capture, the
  ArcGIS builder and the two-shape parse of \<^verbatim>\<open>details\<close>). Functions of the later generation
  keep their names; those of the earlier generation carry the suffix \<open>_early\<close>.

  A \<^verbatim>\<open>float64\<close> coordinate is only carried from the store to the camera query and to the
  formatter, and a \<^verbatim>\<open>time.Time\<close> only to the formatter; the formatters are parameters
  (\<open>stdlib\<close> below), so the carrier types matter little.
  \<^verbatim>\<open>sql.NullFloat64\<close> and \<^verbatim>\<open>sql.NullString\<close> are options.
\<close>

type_synonym float64 = real
type_synonym Time = int

record Camera =
  CameraName :: string
  ImageURL :: string

record UnifiedIncident =
  ID :: int
  Source :: string
  SourceID :: string
  EventType :: string
  Address :: string
  Latitude :: "float64 option"
  Longitude :: "float64 option"
  Timestamp :: Time
  Details :: string
  DiscordMessageID :: "string option"

text \<open>
  The one-field structs \<^verbatim>\<open>EmbedFooter\<close>, \<^verbatim>\<open>EmbedThumbnail\<close> and \<^verbatim>\<open>EmbedImage\<close> are
  their field; an absent thumbnail or image is the empty URL, as in Go.
\<close>

record EmbedField =
  Name :: string
  Value :: string
  Inline :: bool

record DiscordEmbed =
  Title :: string
  Color :: int
  Fields :: "EmbedField list"
  Footer :: string
  EmbedTimestamp :: string
  Thumbnail :: string
  Image :: string

record DiscordWebhookPayload =
  Username :: string
  AvatarURL :: string
  Embeds :: "DiscordEmbed list"

section \<open>The Go library, as far as the program uses it\<close>

subsection \<open>JSON documents\<close>

text \<open>
  \<^verbatim>\<open>encoding/json\<close> first checks the syntax of the whole input and then walks it. The model
  starts from the outcome of the check: \<open>jsonScan\<close> maps the bytes to \<open>None\<close> (a syntax
  error) or to the document's tree. Object members are kept in document order, keys and
  strings unquoted, numbers as their literal text (the decoder hands that text to
  \<^verbatim>\<open>strconv.ParseInt\<close>). A \<^verbatim>\<open>json.RawMessage\<close> cut out of a checked document is the
  subtree it spells.
\<close>

datatype json =
    JNull
  | JBool bool
  | JNumber string
  | JString string
  | JArray "json list"
  | JObject "(string \<times> json) list"

record stdlib =
  jsonScan :: "string \<Rightarrow> json option"
  fmtFloat6 :: "float64 \<Rightarrow> string"
  fmtRFC3339 :: "Time \<Rightarrow> string"
  fmtNewYork :: "Time \<Rightarrow> string"

text \<open>
  \<open>fmtFloat6\<close> is \<^verbatim>\<open>%.6f\<close>, \<open>fmtRFC3339\<close> is \<^verbatim>\<open>t.Format(time.RFC3339)\<close>, and
  \<open>fmtNewYork\<close> is \<^verbatim>\<open>t.In(loc).Format("Mon, Jan 2, 3:04 PM")\<close> for the zone
  \<^verbatim>\<open>America/New_York\<close> (the source discards the error of \<^verbatim>\<open>time.LoadLocation\<close>; the zone
  is taken to load).
\<close>

subsection \<open>strconv\<close>

definition digitVal :: "char \<Rightarrow> nat option" where
  "digitVal c = map_of (zip ''0123456789'' [0, 1, 2, 3, 4, 5, 6, 7, 8, 9]) c"

fun decimalValue :: "string \<Rightarrow> nat \<Rightarrow> nat option" where
  "decimalValue [] acc = Some acc"
| "decimalValue (c # cs) acc =
     (case digitVal c of None \<Rightarrow> None | Some d \<Rightarrow> decimalValue cs (10 * acc + d))"

text \<open>
  \<^verbatim>\<open>strconv.ParseInt(s, 10, 64)\<close>: an optional sign, at least one digit, the int64 range.
  A Go \<^verbatim>\<open>int\<close> is taken to be 64 bits wide, so every value it returns fits the field.
\<close>

definition ParseInt :: "string \<Rightarrow> int option" where
  "ParseInt s =
     (let neg = (take 1 s = ''-'');
          ds = (if take 1 s = ''-'' \<or> take 1 s = ''+'' then drop 1 s else s)
      in if ds = [] then None
         else (case decimalValue ds 0 of
                 None \<Rightarrow> None
               | Some n \<Rightarrow>
                   if neg then (if int n \<le> 2 ^ 63 then Some (- int n) else None)
                   else (if int n < 2 ^ 63 then Some (int n) else None)))"

fun digitsOf :: "nat \<Rightarrow> string" where
  "digitsOf n =
     (if n < 10 then [''0123456789'' ! n]
      else digitsOf (n div 10) @ [''0123456789'' ! (n mod 10)])"

declare digitsOf.simps [simp del]

text \<open>\<^verbatim>\<open>strconv.Itoa\<close>, also the verb \<^verbatim>\<open>%d\<close>.\<close>

definition Itoa :: "int \<Rightarrow> string" where
  "Itoa i = (if i < 0 then ''-'' @ digitsOf (nat (- i)) else digitsOf (nat i))"

subsection \<open>strings\<close>

fun Join :: "string list \<Rightarrow> string \<Rightarrow> string" where
  "Join [] sep = []"
| "Join [x] sep = x"
| "Join (x # y # ys) sep = x @ sep @ Join (y # ys) sep"

definition HasPrefix :: "string \<Rightarrow> string \<Rightarrow> bool" where
  "HasPrefix s p = prefix p s"

definition newline :: string where
  "newline = [CHR 0x0A]"

subsection \<open>json.Unmarshal\<close>

text \<open>
  A key of an object selects the struct field whose name it equals, or else the first
  field whose name it equals under case folding. Folding maps the ASCII letters to upper
  case, and the two runes that fold to ASCII letters (U+212A, Kelvin sign, and U+017F,
  long s) to \<open>K\<close> and \<open>S\<close>; against the ASCII names of this program that is Go's test.
\<close>

definition upperASCII :: "char \<Rightarrow> char" where
  "upperASCII c =
     (case map_of (zip ''abcdefghijklmnopqrstuvwxyz'' ''ABCDEFGHIJKLMNOPQRSTUVWXYZ'') c of
        Some u \<Rightarrow> u
      | None \<Rightarrow> c)"

fun foldName :: "string \<Rightarrow> string" where
  "foldName [] = []"
| "foldName (c # cs) =
     (if c = CHR 0xE2 \<and> take 2 cs = [CHR 0x84, CHR 0xAA] then CHR ''K'' # foldName (drop 2 cs)
      else if c = CHR 0xC5 \<and> take 1 cs = [CHR 0xBF] then CHR ''S'' # foldName (drop 1 cs)
      else upperASCII c # foldName cs)"

definition fieldFor :: "string list \<Rightarrow> string \<Rightarrow> string option" where
  "fieldFor names key =
     (if key \<in> set names then Some key
      else find (\<lambda>n. foldName n = foldName key) names)"

text \<open>
  Storing a value into a field gives the field's new content and whether an
  \<^verbatim>\<open>UnmarshalTypeError\<close> was saved. \<^verbatim>\<open>null\<close> leaves a string or an int as it is, without
  error; a value of the wrong kind leaves it as it is, with error, and decoding goes on.
\<close>

fun storeString :: "json \<Rightarrow> string \<Rightarrow> string \<times> bool" where
  "storeString (JString s) old = (s, False)"
| "storeString JNull old = (old, False)"
| "storeString _ old = (old, True)"

fun storeInt :: "json \<Rightarrow> int \<Rightarrow> int \<times> bool" where
  "storeInt (JNumber lit) old =
     (case ParseInt lit of Some n \<Rightarrow> (n, False) | None \<Rightarrow> (old, True))"
| "storeInt JNull old = (old, False)"
| "storeInt _ old = (old, True)"

text \<open>
  Decoding a tree into a struct: an object stores its members one after the other (a
  later member overwrites an earlier one), \<^verbatim>\<open>null\<close> does nothing, anything else is a type
  error. The result is the struct and whether \<^verbatim>\<open>Unmarshal\<close> returns an error.
\<close>

fun decodeStruct :: "(string \<Rightarrow> json \<Rightarrow> 's \<Rightarrow> 's \<times> bool) \<Rightarrow> json \<Rightarrow> 's \<Rightarrow> 's \<times> bool" where
  "decodeStruct setField (JObject kvs) s =
     foldl (\<lambda>(s, e) (k, v). let (s', e') = setField k v s in (s', e \<or> e')) (s, False) kvs"
| "decodeStruct setField JNull s = (s, False)"
| "decodeStruct setField _ s = (s, True)"

text \<open>\<^verbatim>\<open>json.Unmarshal(data, &s)\<close> for a struct \<open>s\<close>.\<close>

definition unmarshalStruct ::
  "stdlib \<Rightarrow> (string \<Rightarrow> json \<Rightarrow> 's \<Rightarrow> 's \<times> bool) \<Rightarrow> string \<Rightarrow> 's \<Rightarrow> 's \<times> bool" where
  "unmarshalStruct lib setField data s =
     (case jsonScan lib data of
        None \<Rightarrow> (s, True)
      | Some j \<Rightarrow> decodeStruct setField j s)"

text \<open>
  \<^verbatim>\<open>json.Unmarshal(data, &m)\<close> for a nil \<^verbatim>\<open>map[string]json.RawMessage\<close>: \<open>None\<close> is an
  error. An object fills the map, the last member of a key winning; \<^verbatim>\<open>null\<close> leaves the
  map nil, which reads as empty; any other value is a type error.
\<close>

fun decodeMap :: "json \<Rightarrow> (string \<rightharpoonup> json) option" where
  "decodeMap (JObject kvs) = Some (map_of (rev kvs))"
| "decodeMap JNull = Some Map.empty"
| "decodeMap _ = None"

definition unmarshalMap :: "stdlib \<Rightarrow> string \<Rightarrow> (string \<rightharpoonup> json) option" where
  "unmarshalMap lib data =
     (case jsonScan lib data of
        None \<Rightarrow> None
      | Some j \<Rightarrow> decodeMap j)"

section \<open>Payload builders of the later generation\<close>

subsection \<open>The anonymous structs the builders decode into\<close>

record NcdotIncident =
  Reason :: string
  Road :: string
  Location :: string
  Severity :: int

record RweccIncident =
  Problem :: string
  Jurisdiction :: string

record ArcGisIncident =
  CaseNumber :: string
  CrimeDescription :: string
  Agency :: string

record WeatherDetails =
  Temperature :: int
  WindSpeed :: string
  ShortForecast :: string
  Icon :: string

definition zeroNcdot :: NcdotIncident where
  "zeroNcdot = \<lparr>Reason = [], Road = [], Location = [], Severity = 0\<rparr>"

definition zeroRwecc :: RweccIncident where
  "zeroRwecc = \<lparr>Problem = [], Jurisdiction = []\<rparr>"

definition zeroArcGis :: ArcGisIncident where
  "zeroArcGis = \<lparr>CaseNumber = [], CrimeDescription = [], Agency = []\<rparr>"

definition zeroWeather :: WeatherDetails where
  "zeroWeather = \<lparr>Temperature = 0, WindSpeed = [], ShortForecast = [], Icon = []\<rparr>"

text \<open>One member of an object stored into each struct, by its \<^verbatim>\<open>json\<close> tags.\<close>

definition setNcdotField :: "string \<Rightarrow> json \<Rightarrow> NcdotIncident \<Rightarrow> NcdotIncident \<times> bool" where
  "setNcdotField key v r =
     (case fieldFor [''reason'', ''road'', ''location'', ''severity''] key of
        None \<Rightarrow> (r, False)
      | Some n \<Rightarrow>
          if n = ''reason'' then (let (s, e) = storeString v (Reason r) in (r\<lparr>Reason := s\<rparr>, e))
          else if n = ''road'' then (let (s, e) = storeString v (Road r) in (r\<lparr>Road := s\<rparr>, e))
          else if n = ''location'' then
            (let (s, e) = storeString v (Location r) in (r\<lparr>Location := s\<rparr>, e))
          else (let (i, e) = storeInt v (Severity r) in (r\<lparr>Severity := i\<rparr>, e)))"

definition setRweccField :: "string \<Rightarrow> json \<Rightarrow> RweccIncident \<Rightarrow> RweccIncident \<times> bool" where
  "setRweccField key v r =
     (case fieldFor [''problem'', ''jurisdiction''] key of
        None \<Rightarrow> (r, False)
      | Some n \<Rightarrow>
          if n = ''problem'' then (let (s, e) = storeString v (Problem r) in (r\<lparr>Problem := s\<rparr>, e))
          else (let (s, e) = storeString v (Jurisdiction r) in (r\<lparr>Jurisdiction := s\<rparr>, e)))"

definition setArcGisField :: "string \<Rightarrow> json \<Rightarrow> ArcGisIncident \<Rightarrow> ArcGisIncident \<times> bool" where
  "setArcGisField key v r =
     (case fieldFor [''case_number'', ''crime_description'', ''agency''] key of
        None \<Rightarrow> (r, False)
      | Some n \<Rightarrow>
          if n = ''case_number'' then
            (let (s, e) = storeString v (CaseNumber r) in (r\<lparr>CaseNumber := s\<rparr>, e))
          else if n = ''crime_description'' then
            (let (s, e) = storeString v (CrimeDescription r) in (r\<lparr>CrimeDescription := s\<rparr>, e))
          else (let (s, e) = storeString v (Agency r) in (r\<lparr>Agency := s\<rparr>, e)))"

definition setWeatherField :: "string \<Rightarrow> json \<Rightarrow> WeatherDetails \<Rightarrow> WeatherDetails \<times> bool" where
  "setWeatherField key v r =
     (case fieldFor [''temperature'', ''windSpeed'', ''shortForecast'', ''icon''] key of
        None \<Rightarrow> (r, False)
      | Some n \<Rightarrow>
          if n = ''temperature'' then
            (let (i, e) = storeInt v (Temperature r) in (r\<lparr>Temperature := i\<rparr>, e))
          else if n = ''windSpeed'' then
            (let (s, e) = storeString v (WindSpeed r) in (r\<lparr>WindSpeed := s\<rparr>, e))
          else if n = ''shortForecast'' then
            (let (s, e) = storeString v (ShortForecast r) in (r\<lparr>ShortForecast := s\<rparr>, e))
          else (let (s, e) = storeString v (Icon r) in (r\<lparr>Icon := s\<rparr>, e)))"

subsection \<open>The two-shape parse\<close>

text \<open>
  The first block of each builder. \<open>usesFallback\<close> is the test of the \<^verbatim>\<open>else\<close> branch: the
  top-level \<^verbatim>\<open>Unmarshal\<close> into the map returned an error. The builders drop every error of
  the inner \<^verbatim>\<open>Unmarshal\<close> calls.

  \<^verbatim>\<open>weatherDetails\<close> is a pointer to a struct. \<^verbatim>\<open>Unmarshal\<close> allocates the struct for every
  value but \<^verbatim>\<open>null\<close> before it looks at the value's kind, so the pointer is non-nil for
  every non-null \<^verbatim>\<open>weather\<close> member.
\<close>

definition usesFallback :: "stdlib \<Rightarrow> string \<Rightarrow> bool" where
  "usesFallback lib details = (unmarshalMap lib details = None)"

definition weatherOf :: "(string \<rightharpoonup> json) \<Rightarrow> WeatherDetails option" where
  "weatherOf detailsMap =
     (case detailsMap ''weather'' of
        None \<Rightarrow> None
      | Some weatherJSON \<Rightarrow>
          if weatherJSON \<noteq> JNull then Some (fst (decodeStruct setWeatherField weatherJSON zeroWeather))
          else None)"

definition parseNcdot :: "stdlib \<Rightarrow> string \<Rightarrow> NcdotIncident \<times> WeatherDetails option" where
  "parseNcdot lib details =
     (case unmarshalMap lib details of
        Some detailsMap \<Rightarrow>
          ((case detailsMap ''raw_incident'' of
              Some rawJSON \<Rightarrow> fst (decodeStruct setNcdotField rawJSON zeroNcdot)
            | None \<Rightarrow> zeroNcdot),
           weatherOf detailsMap)
      | None \<Rightarrow> (fst (unmarshalStruct lib setNcdotField details zeroNcdot), None))"

definition parseRwecc :: "stdlib \<Rightarrow> string \<Rightarrow> RweccIncident \<times> WeatherDetails option" where
  "parseRwecc lib details =
     (case unmarshalMap lib details of
        Some detailsMap \<Rightarrow>
          ((case detailsMap ''raw_incident'' of
              Some rawJSON \<Rightarrow> fst (decodeStruct setRweccField rawJSON zeroRwecc)
            | None \<Rightarrow> zeroRwecc),
           weatherOf detailsMap)
      | None \<Rightarrow> (fst (unmarshalStruct lib setRweccField details zeroRwecc), None))"

definition parseArcGis :: "stdlib \<Rightarrow> string \<Rightarrow> ArcGisIncident" where
  "parseArcGis lib details =
     (case unmarshalMap lib details of
        Some detailsMap \<Rightarrow>
          (case detailsMap ''raw_incident'' of
             Some rawJSON \<Rightarrow> fst (decodeStruct setArcGisField rawJSON zeroArcGis)
           | None \<Rightarrow> zeroArcGis)
      | None \<Rightarrow> fst (unmarshalStruct lib setArcGisField details zeroArcGis))"

subsection \<open>Pieces shared by the builders\<close>

definition degreeSign :: string where
  "degreeSign = [CHR 0xC2, CHR 0xB0]"

text \<open>
  The format of the weather field: the forecast, a line \<^verbatim>\<open>Temp: %d\<close> followed by the degree
  sign (bytes C2 B0) and \<^verbatim>\<open>F\<close>, and a line \<^verbatim>\<open>Wind: %s\<close>.
\<close>

definition weatherValue :: "WeatherDetails \<Rightarrow> string" where
  "weatherValue w =
     ShortForecast w @ newline @ ''Temp: '' @ Itoa (Temperature w) @ degreeSign @ ''F'' @ newline
       @ ''Wind: '' @ WindSpeed w"

definition weatherFields :: "WeatherDetails option \<Rightarrow> EmbedField list" where
  "weatherFields weatherDetails =
     (case weatherDetails of
        None \<Rightarrow> []
      | Some w \<Rightarrow> [\<lparr>Name = ''Weather Conditions'', Value = weatherValue w, Inline = False\<rparr>])"

text \<open>\<^verbatim>\<open>fmt.Sprintf("[%s](%s)", Name, ImageURL)\<close>\<close>

definition cameraLink :: "Camera \<Rightarrow> string" where
  "cameraLink c = ''['' @ CameraName c @ '']('' @ ImageURL c @ '')''"

text \<open>The loop from index 1 over \<^verbatim>\<open>nearbyCameras\<close>, run when there is more than one camera.\<close>

definition otherCameraFields :: "Camera list \<Rightarrow> EmbedField list" where
  "otherCameraFields nearbyCameras =
     (if length nearbyCameras > 1 then
        [\<lparr>Name = ''Other Live Cameras'',
          Value = Join (map cameraLink (drop 1 nearbyCameras)) newline, Inline = False\<rparr>]
      else [])"

definition redMapURL :: "stdlib \<Rightarrow> string \<Rightarrow> float64 \<Rightarrow> float64 \<Rightarrow> string" where
  "redMapURL lib mapsAPIKey lat lon =
     ''https://maps.googleapis.com/maps/api/staticmap?center='' @ fmtFloat6 lib lat @ '','' @ fmtFloat6 lib lon
       @ ''&zoom=14&size=300x300&markers=color:red%7C'' @ fmtFloat6 lib lat @ '','' @ fmtFloat6 lib lon
       @ ''&key='' @ mapsAPIKey"

definition purpleMapURL :: "stdlib \<Rightarrow> string \<Rightarrow> float64 \<Rightarrow> float64 \<Rightarrow> string" where
  "purpleMapURL lib mapsAPIKey lat lon =
     ''https://maps.googleapis.com/maps/api/staticmap?center='' @ fmtFloat6 lib lat @ '','' @ fmtFloat6 lib lon
       @ ''&zoom=15&size=600x400&markers=color:purple%7C'' @ fmtFloat6 lib lat @ '','' @ fmtFloat6 lib lon
       @ ''&key='' @ mapsAPIKey"

text \<open>The thumbnail of the NCDOT and RWECC embeds: set when a key and both coordinates are there.\<close>

definition thumbnailOf :: "stdlib \<Rightarrow> string \<Rightarrow> UnifiedIncident \<Rightarrow> string" where
  "thumbnailOf lib mapsAPIKey incident =
     (case (Latitude incident, Longitude incident) of
        (Some lat, Some lon) \<Rightarrow> if mapsAPIKey \<noteq> [] then redMapURL lib mapsAPIKey lat lon else []
      | _ \<Rightarrow> [])"

definition attachmentImage :: "string \<Rightarrow> string" where
  "attachmentImage attachmentName =
     (if attachmentName \<noteq> [] then ''attachment://'' @ attachmentName else [])"

text \<open>The \<^verbatim>\<open>switch\<close> on the severity.\<close>

definition severityColor :: "int \<Rightarrow> int" where
  "severityColor severity =
     (if severity = 1 then 3066993
      else if severity = 2 then 16776960
      else if severity = 3 then 15158332
      else 2105893)"

definition siren :: string where
  "siren = [CHR 0xF0, CHR 0x9F, CHR 0x9A, CHR 0xA8]"

definition blueCircle :: string where
  "blueCircle = [CHR 0xF0, CHR 0x9F, CHR 0x94, CHR 0xB5]"

definition purpleCircle :: string where
  "purpleCircle = [CHR 0xF0, CHR 0x9F, CHR 0x9F, CHR 0xA3]"

definition checkMark :: string where
  "checkMark = [CHR 0xE2, CHR 0x9C, CHR 0x85]"

subsection \<open>buildNcdotPayload, buildRweccPayload, buildArcGisPayload\<close>

definition buildNcdotPayload ::
  "stdlib \<Rightarrow> string \<Rightarrow> UnifiedIncident \<Rightarrow> Camera list \<Rightarrow> string \<Rightarrow> DiscordWebhookPayload" where
  "buildNcdotPayload lib mapsAPIKey incident nearbyCameras attachmentName =
     (let (rawIncident, weatherDetails) = parseNcdot lib (Details incident);
          color = severityColor (Severity rawIncident);
          fields =
            [\<lparr>Name = ''Reason'', Value = Reason rawIncident, Inline = False\<rparr>,
             \<lparr>Name = ''Road'', Value = Road rawIncident, Inline = False\<rparr>,
             \<lparr>Name = ''Location'', Value = Location rawIncident, Inline = False\<rparr>,
             \<lparr>Name = ''Severity'', Value = Itoa (Severity rawIncident), Inline = False\<rparr>]
            @ weatherFields weatherDetails @ otherCameraFields nearbyCameras;
          embed =
            \<lparr>Title = siren @ '' NC DOT - Incident Alert '' @ siren, Color = color, Fields = fields,
             Footer = ''Source: NC DOT API'', EmbedTimestamp = fmtRFC3339 lib (Timestamp incident),
             Thumbnail = thumbnailOf lib mapsAPIKey incident,
             Image = attachmentImage attachmentName\<rparr>
      in \<lparr>Username = ''Unified Alert Bot'', AvatarURL = [], Embeds = [embed]\<rparr>)"

definition buildRweccPayload ::
  "stdlib \<Rightarrow> string \<Rightarrow> UnifiedIncident \<Rightarrow> Camera list \<Rightarrow> string \<Rightarrow> DiscordWebhookPayload" where
  "buildRweccPayload lib mapsAPIKey incident nearbyCameras attachmentName =
     (let (rawIncident, weatherDetails) = parseRwecc lib (Details incident);
          fields =
            [\<lparr>Name = ''Address'', Value = Address incident, Inline = False\<rparr>,
             \<lparr>Name = ''Jurisdiction'', Value = Jurisdiction rawIncident, Inline = False\<rparr>]
            @ weatherFields weatherDetails @ otherCameraFields nearbyCameras;
          embed =
            \<lparr>Title = blueCircle @ '' '' @ Problem rawIncident @ '' '' @ blueCircle, Color = 3447003,
             Fields = fields, Footer = ''Source: Raleigh-Wake ECC'',
             EmbedTimestamp = fmtRFC3339 lib (Timestamp incident),
             Thumbnail = thumbnailOf lib mapsAPIKey incident,
             Image = attachmentImage attachmentName\<rparr>
      in \<lparr>Username = ''Unified Alert Bot'', AvatarURL = [], Embeds = [embed]\<rparr>)"

definition buildArcGisPayload :: "stdlib \<Rightarrow> string \<Rightarrow> UnifiedIncident \<Rightarrow> DiscordWebhookPayload" where
  "buildArcGisPayload lib mapsAPIKey incident =
     (let rawIncident = parseArcGis lib (Details incident);
          formattedTime = fmtNewYork lib (Timestamp incident);
          fields =
            [\<lparr>Name = ''Address'', Value = Address incident, Inline = False\<rparr>,
             \<lparr>Name = ''Agency'', Value = Agency rawIncident, Inline = False\<rparr>]
            @ (if \<not> HasPrefix (CaseNumber rawIncident) ''NO_CASE-'' then
                 [\<lparr>Name = ''Case #'', Value = CaseNumber rawIncident, Inline = False\<rparr>]
               else [])
            @ [\<lparr>Name = ''Reported'', Value = formattedTime, Inline = False\<rparr>];
          embed =
            \<lparr>Title = purpleCircle @ '' '' @ CrimeDescription rawIncident @ '' '' @ purpleCircle,
             Color = 9807270, Fields = fields, Footer = ''Source: Police Incidents Feed'',
             EmbedTimestamp = fmtRFC3339 lib (Timestamp incident),
             Thumbnail = [],
             Image =
               (case (Latitude incident, Longitude incident) of
                  (Some lat, Some lon) \<Rightarrow>
                    if mapsAPIKey \<noteq> [] then purpleMapURL lib mapsAPIKey lat lon else []
                | _ \<Rightarrow> [])\<rparr>
      in \<lparr>Username = ''Unified Alert Bot'', AvatarURL = [], Embeds = [embed]\<rparr>)"

section \<open>Collaborators\<close>

text \<open>
  The store, the camera directory, the file system, the clock and the webhook answer the
  calls of one run. Each answer the source inspects is a field of \<open>env\<close>, a function of the
  arguments of the call; a second run has an \<open>env\<close> of its own. What a run does to its
  collaborators is the list of \<open>event\<close>s it returns, oldest first: \<open>NotifyCall\<close> and
  \<open>EditCall\<close> mark the calls of \<^verbatim>\<open>sendDiscordAlert\<close> and \<^verbatim>\<open>updateDiscordAlert\<close> in the two
  loops of \<^verbatim>\<open>main\<close>. Log lines and the sleep between two sends are left out.
\<close>

datatype error =
    UnknownSource string
  | UnmarshalDetails string
  | Failure string

datatype event =
    NotifyCall int
  | CameraQuery float64 float64 nat
  | Capture int Camera
  | AuditInsert int string string
  | Post string DiscordWebhookPayload string
  | Remove string
  | EditCall int
  | Patch string DiscordWebhookPayload

record Row =
  Incident :: UnifiedIncident
  Status :: string

record env =
  camerasByDistance :: "float64 \<Rightarrow> float64 \<Rightarrow> error + Camera list"
  fetchImage :: "int \<Rightarrow> Camera \<Rightarrow> error + string"
  tempFile :: "string \<Rightarrow> string"
  openFails :: "string \<Rightarrow> bool"
  httpPost :: "string \<Rightarrow> DiscordWebhookPayload \<Rightarrow> string \<Rightarrow> error + string"
  httpPatch :: "string \<Rightarrow> DiscordWebhookPayload \<Rightarrow> error option"
  timeNow :: "string \<Rightarrow> Time"
  queryNewFails :: bool
  queryClearedFails :: bool
  scanFails :: "Row \<Rightarrow> bool"
  execFails :: "int \<Rightarrow> string option \<Rightarrow> bool"

text \<open>
  \<open>camerasByDistance env lat lon\<close> is the table \<^verbatim>\<open>traffic_cameras\<close> in the order of the
  query, or the error of the query or of a row's scan. \<open>fetchImage\<close> is the download of
  \<^verbatim>\<open>captureCameraImage\<close> up to the copy into the file: an error, or the time stamp
  \<^verbatim>\<open>time.Now().Format("20060102150405")\<close> of the file name. \<open>tempFile name\<close> is
  \<^verbatim>\<open>filepath.Join(os.TempDir(), name)\<close>. \<open>httpPost\<close> and \<open>httpPatch\<close> are the request and the
  reading of its response; \<open>timeNow messageID\<close> is the clock when that message is edited.
  \<open>openFails path\<close> says that \<^verbatim>\<open>os.Open\<close> of the attachment fails. The last four fields are
  the store's: whether each of the two queries of \<^verbatim>\<open>main\<close> fails, whether \<^verbatim>\<open>rows.Scan\<close> of a
  row fails, and whether the \<^verbatim>\<open>UPDATE\<close> of a row's message id is refused.
\<close>

record config =
  webhookURL :: string
  mapsAPIKey :: string
  notifyDiscord :: string

section \<open>The later generation: sending and editing\<close>

definition findNearbyCameras :: "env \<Rightarrow> float64 \<Rightarrow> float64 \<Rightarrow> nat \<Rightarrow> error + Camera list" where
  "findNearbyCameras env lat lon limit =
     (case camerasByDistance env lat lon of
        Inl e \<Rightarrow> Inl e
      | Inr cameras \<Rightarrow> Inr (take limit cameras))"

text \<open>\<^verbatim>\<open>fmt.Sprintf("incident_%d_cam_%s.jpg", incidentID, stamp)\<close>\<close>

definition captureFileName :: "int \<Rightarrow> string \<Rightarrow> string" where
  "captureFileName incidentID stamp =
     ''incident_'' @ Itoa incidentID @ ''_cam_'' @ stamp @ ''.jpg''"

definition captureCameraImage ::
  "env \<Rightarrow> int \<Rightarrow> Camera \<Rightarrow> event list \<times> (error + string \<times> string)" where
  "captureCameraImage env incidentID camera =
     (case fetchImage env incidentID camera of
        Inl e \<Rightarrow> ([Capture incidentID camera], Inl e)
      | Inr stamp \<Rightarrow>
          (let fileName = captureFileName incidentID stamp;
               filePath = tempFile env fileName
           in ([Capture incidentID camera, AuditInsert incidentID (CameraName camera) filePath],
               Inr (filePath, fileName))))"

definition postMultipartToWebhook ::
  "env \<Rightarrow> string \<Rightarrow> DiscordWebhookPayload \<Rightarrow> string \<Rightarrow> event list \<times> (error + string)" where
  "postMultipartToWebhook env url payload attachmentPath =
     (if attachmentPath \<noteq> [] \<and> openFails env attachmentPath then
        ([], Inl (Failure ''open''))
      else ([Post (url @ ''?wait=true'') payload attachmentPath],
            httpPost env (url @ ''?wait=true'') payload attachmentPath))"

text \<open>
  \<^verbatim>\<open>sendDiscordAlert\<close>. The cameras are asked for (\<open>nearbyCamerasOf\<close>, its first block) and the
  nearest one is captured (\<open>attachmentOf\<close>, its second block) before the source is looked at,
  for every source but \<^verbatim>\<open>ArcGIS_Police\<close>; the deferred \<^verbatim>\<open>os.Remove\<close> runs when the function
  returns. An error of the camera query is logged and leaves no cameras; an error of the
  capture is logged and leaves no attachment.
\<close>

definition nearbyCamerasOf :: "env \<Rightarrow> UnifiedIncident \<Rightarrow> event list \<times> Camera list" where
  "nearbyCamerasOf env incident =
     (case (Latitude incident, Longitude incident) of
        (Some lat, Some lon) \<Rightarrow>
          ([CameraQuery lat lon 3],
           (case findNearbyCameras env lat lon 3 of Inl e \<Rightarrow> [] | Inr cameras \<Rightarrow> cameras))
      | _ \<Rightarrow> ([], []))"

definition attachmentOf :: "env \<Rightarrow> UnifiedIncident \<Rightarrow> Camera list \<Rightarrow> event list \<times> string \<times> string" where
  "attachmentOf env incident nearbyCameras =
     (case nearbyCameras of
        [] \<Rightarrow> ([], [], [])
      | camera # _ \<Rightarrow>
          (case captureCameraImage env (ID incident) camera of
             (evs, Inl e) \<Rightarrow> (evs, [], [])
           | (evs, Inr (attachmentPath, attachmentName)) \<Rightarrow> (evs, attachmentPath, attachmentName)))"

definition sendDiscordAlert ::
  "stdlib \<Rightarrow> env \<Rightarrow> string \<Rightarrow> string \<Rightarrow> UnifiedIncident \<Rightarrow> event list \<times> (error + string)" where
  "sendDiscordAlert lib env url key incident =
     (if Source incident \<noteq> ''ArcGIS_Police'' then
        (let (evs1, nearbyCameras) = nearbyCamerasOf env incident;
             (evs2, attachmentPath, attachmentName) = attachmentOf env incident nearbyCameras;
             removal = (if attachmentPath \<noteq> [] then [Remove attachmentPath] else [])
         in if Source incident = ''NCDOT'' then
              (let payload = buildNcdotPayload lib key incident nearbyCameras attachmentName;
                   (evs3, result) = postMultipartToWebhook env url payload attachmentPath
               in (evs1 @ evs2 @ evs3 @ removal, result))
            else if Source incident = ''RWECC'' then
              (let payload = buildRweccPayload lib key incident nearbyCameras attachmentName;
                   (evs3, result) = postMultipartToWebhook env url payload attachmentPath
               in (evs1 @ evs2 @ evs3 @ removal, result))
            else (evs1 @ evs2 @ removal, Inl (UnknownSource (Source incident))))
      else postMultipartToWebhook env url (buildArcGisPayload lib key incident) [])"

text \<open>
  \<^verbatim>\<open>updateDiscordAlert\<close>: the payload it builds (\<open>clearedPayload\<close>) and the \<^verbatim>\<open>PATCH\<close> of the
  message.
\<close>

definition clearedPayload :: "stdlib \<Rightarrow> Time \<Rightarrow> UnifiedIncident \<Rightarrow> DiscordWebhookPayload" where
  "clearedPayload lib now incident =
     \<lparr>Username = [], AvatarURL = [],
      Embeds =
        [\<lparr>Title = checkMark @ '' Incident Cleared '' @ checkMark, Color = 3066993,
          Fields =
            [\<lparr>Name = ''Source'', Value = Source incident, Inline = False\<rparr>,
             \<lparr>Name = ''Address'', Value = Address incident, Inline = False\<rparr>],
          Footer = ''Incident no longer in active feed'', EmbedTimestamp = fmtRFC3339 lib now,
          Thumbnail = [], Image = []\<rparr>]\<rparr>"

definition updateDiscordAlert ::
  "stdlib \<Rightarrow> env \<Rightarrow> string \<Rightarrow> string \<Rightarrow> UnifiedIncident \<Rightarrow> event list \<times> error option" where
  "updateDiscordAlert lib env url messageID incident =
     (let payload = clearedPayload lib (timeNow env messageID) incident;
          updateURL = url @ ''/messages/'' @ messageID
      in ([Patch updateURL payload], httpPatch env updateURL payload))"

section \<open>The later generation: the two passes of main\<close>

text \<open>
  The table \<^verbatim>\<open>unified_incidents\<close> is a list of rows; a \<^verbatim>\<open>SELECT\<close> gives the rows of its
  \<^verbatim>\<open>WHERE\<close> clause in table order, and an \<^verbatim>\<open>UPDATE ... WHERE id = $n\<close> that the store accepts
  rewrites the column of every row with that id.
\<close>

definition selectNew :: "Row list \<Rightarrow> Row list" where
  "selectNew store =
     filter (\<lambda>r. Status r = ''active'' \<and> DiscordMessageID (Incident r) = None) store"

definition selectCleared :: "Row list \<Rightarrow> Row list" where
  "selectCleared store =
     filter (\<lambda>r. Status r = ''cleared'' \<and> DiscordMessageID (Incident r) \<noteq> None) store"

definition setMessageID :: "int \<Rightarrow> string option \<Rightarrow> Row list \<Rightarrow> Row list" where
  "setMessageID incidentID v store =
     map (\<lambda>r. if ID (Incident r) = incidentID
               then r\<lparr>Incident := (Incident r)\<lparr>DiscordMessageID := v\<rparr>\<rparr> else r) store"

definition execUpdate :: "env \<Rightarrow> int \<Rightarrow> string option \<Rightarrow> Row list \<Rightarrow> Row list" where
  "execUpdate env incidentID v store =
     (if execFails env incidentID v then store else setMessageID incidentID v store)"

text \<open>
  \<^verbatim>\<open>rows.Scan\<close> of the first loop fills every field but \<^verbatim>\<open>DiscordMessageID\<close>; that of the
  second loop fills \<^verbatim>\<open>ID\<close>, \<^verbatim>\<open>Source\<close>, \<^verbatim>\<open>Address\<close> and \<^verbatim>\<open>DiscordMessageID\<close>. The other fields
  keep the zero value of \<^verbatim>\<open>var i UnifiedIncident\<close>.
\<close>

definition zeroIncident :: UnifiedIncident where
  "zeroIncident =
     \<lparr>ID = 0, Source = [], SourceID = [], EventType = [], Address = [], Latitude = None,
      Longitude = None, Timestamp = 0, Details = [], DiscordMessageID = None\<rparr>"

definition scanNew :: "env \<Rightarrow> Row \<Rightarrow> error + UnifiedIncident" where
  "scanNew env r =
     (if scanFails env r then Inl (Failure ''scan'')
      else Inr ((Incident r)\<lparr>DiscordMessageID := None\<rparr>))"

definition scanCleared :: "env \<Rightarrow> Row \<Rightarrow> error + UnifiedIncident" where
  "scanCleared env r =
     (if scanFails env r then Inl (Failure ''scan'')
      else Inr (zeroIncident\<lparr>ID := ID (Incident r), Source := Source (Incident r),
                  Address := Address (Incident r),
                  DiscordMessageID := DiscordMessageID (Incident r)\<rparr>))"

text \<open>
  One turn of the first loop, after the scan: the events, the increment of
  \<^verbatim>\<open>newIncidentsFound\<close> and the store afterwards.
\<close>

definition notifyOne ::
  "stdlib \<Rightarrow> env \<Rightarrow> config \<Rightarrow> UnifiedIncident \<Rightarrow> Row list \<Rightarrow> event list \<times> nat \<times> Row list" where
  "notifyOne lib env cfg i store =
     (if notifyDiscord cfg = ''0'' then ([], 0, store)
      else (case sendDiscordAlert lib env (webhookURL cfg) (mapsAPIKey cfg) i of
              (evs, Inl e) \<Rightarrow> (NotifyCall (ID i) # evs, 0, store)
            | (evs, Inr messageID) \<Rightarrow>
                (NotifyCall (ID i) # evs, 1, execUpdate env (ID i) (Some messageID) store)))"

fun processNew ::
  "stdlib \<Rightarrow> env \<Rightarrow> config \<Rightarrow> (error + UnifiedIncident) list \<Rightarrow> Row list
     \<Rightarrow> event list \<times> nat \<times> Row list" where
  "processNew lib env cfg [] store = ([], 0, store)"
| "processNew lib env cfg (Inl e # rows) store = processNew lib env cfg rows store"
| "processNew lib env cfg (Inr i # rows) store =
     (let (evs, n, store1) = notifyOne lib env cfg i store;
          (evs', n', store2) = processNew lib env cfg rows store1
      in (evs @ evs', n + n', store2))"

definition NullString_String :: "string option \<Rightarrow> string" where
  "NullString_String v = (case v of Some s \<Rightarrow> s | None \<Rightarrow> [])"

definition clearOne ::
  "stdlib \<Rightarrow> env \<Rightarrow> config \<Rightarrow> UnifiedIncident \<Rightarrow> Row list \<Rightarrow> event list \<times> nat \<times> Row list" where
  "clearOne lib env cfg i store =
     (case updateDiscordAlert lib env (webhookURL cfg) (NullString_String (DiscordMessageID i)) i of
        (evs, Some e) \<Rightarrow> (EditCall (ID i) # evs, 0, store)
      | (evs, None) \<Rightarrow> (EditCall (ID i) # evs, 1, execUpdate env (ID i) None store))"

fun processCleared ::
  "stdlib \<Rightarrow> env \<Rightarrow> config \<Rightarrow> (error + UnifiedIncident) list \<Rightarrow> Row list
     \<Rightarrow> event list \<times> nat \<times> Row list" where
  "processCleared lib env cfg [] store = ([], 0, store)"
| "processCleared lib env cfg (Inl e # rows) store = processCleared lib env cfg rows store"
| "processCleared lib env cfg (Inr i # rows) store =
     (let (evs, n, store1) = clearOne lib env cfg i store;
          (evs', n', store2) = processCleared lib env cfg rows store1
      in (evs @ evs', n + n', store2))"

text \<open>
  Each pass is its query, the scans and its loop. \<open>None\<close> is \<^verbatim>\<open>log.Fatalf\<close>: the query
  failed and the process exits.
\<close>

definition pass1 :: "stdlib \<Rightarrow> env \<Rightarrow> config \<Rightarrow> Row list \<Rightarrow> (event list \<times> nat \<times> Row list) option" where
  "pass1 lib env cfg store =
     (if queryNewFails env then None
      else Some (processNew lib env cfg (map (scanNew env) (selectNew store)) store))"

definition pass2 :: "stdlib \<Rightarrow> env \<Rightarrow> config \<Rightarrow> Row list \<Rightarrow> (event list \<times> nat \<times> Row list) option" where
  "pass2 lib env cfg store =
     (if queryClearedFails env then None
      else Some (processCleared lib env cfg (map (scanCleared env) (selectCleared store)) store))"

text \<open>
  \<^verbatim>\<open>main\<close> from the test of \<^verbatim>\<open>DISCORD_HOOK\<close> on (the connection to the store is open): whether
  the run completed, its events, and the store it leaves.
\<close>

datatype exit = Completed | Fatal

definition main :: "stdlib \<Rightarrow> env \<Rightarrow> config \<Rightarrow> Row list \<Rightarrow> exit \<times> event list \<times> Row list" where
  "main lib env cfg store =
     (if webhookURL cfg = [] then (Fatal, [], store)
      else (case pass1 lib env cfg store of
              None \<Rightarrow> (Fatal, [], store)
            | Some (evs1, n1, store1) \<Rightarrow>
                (case pass2 lib env cfg store1 of
                   None \<Rightarrow> (Fatal, evs1, store1)
                 | Some (evs2, n2, store2) \<Rightarrow> (Completed, evs1 @ evs2, store2))))"

section \<open>The earlier generation\<close>

text \<open>
  \<^verbatim>\<open>main.go\<close> parses \<^verbatim>\<open>details\<close> in one step, straight into the fields of the source, and
  returns the error of that parse; it lists every camera it finds and attaches none. Its
  titles are the bytes of the file.
\<close>

definition siren_early :: string where
  "siren_early = [CHR 0xC3, CHR 0xB0, CHR 0xC5, CHR 0xB8, CHR 0xC5, CHR 0xA1, CHR 0xC2, CHR 0xA8]"

definition blueCircle_early :: string where
  "blueCircle_early =
     [CHR 0xC3, CHR 0xB0, CHR 0xC5, CHR 0xB8, CHR 0xE2, CHR 0x80, CHR 0x9D, CHR 0xC2, CHR 0xB5]"

definition postToWebhook ::
  "env \<Rightarrow> string \<Rightarrow> DiscordWebhookPayload \<Rightarrow> event list \<times> (error + string)" where
  "postToWebhook env url payload =
     ([Post (url @ ''?wait=true'') payload []], httpPost env (url @ ''?wait=true'') payload [])"

text \<open>The enrichment step of \<^verbatim>\<open>sendNcdotAlert\<close> and \<^verbatim>\<open>sendRweccAlert\<close>.\<close>

definition nearbyCameraFields :: "env \<Rightarrow> UnifiedIncident \<Rightarrow> event list \<times> EmbedField list" where
  "nearbyCameraFields env incident =
     (case (Latitude incident, Longitude incident) of
        (Some lat, Some lon) \<Rightarrow>
          ([CameraQuery lat lon 3],
           (case findNearbyCameras env lat lon 3 of
              Inl e \<Rightarrow> []
            | Inr nearbyCameras \<Rightarrow>
                if length nearbyCameras > 0 then
                  [\<lparr>Name = ''Nearby Cameras'',
                    Value = Join (map cameraLink nearbyCameras) newline, Inline = False\<rparr>]
                else []))
      | _ \<Rightarrow> ([], []))"

definition sendNcdotAlert ::
  "stdlib \<Rightarrow> env \<Rightarrow> string \<Rightarrow> string \<Rightarrow> UnifiedIncident \<Rightarrow> event list \<times> (error + string)" where
  "sendNcdotAlert lib env url key incident =
     (case unmarshalStruct lib setNcdotField (Details incident) zeroNcdot of
        (ncdotDetails, True) \<Rightarrow> ([], Inl (UnmarshalDetails ''NCDOT''))
      | (ncdotDetails, False) \<Rightarrow>
          (let color = severityColor (Severity ncdotDetails);
               (evs1, cameraFields) = nearbyCameraFields env incident;
               fields =
                 [\<lparr>Name = ''Reason'', Value = Reason ncdotDetails, Inline = False\<rparr>,
                  \<lparr>Name = ''Road'', Value = Road ncdotDetails, Inline = False\<rparr>,
                  \<lparr>Name = ''Location'', Value = Location ncdotDetails, Inline = False\<rparr>,
                  \<lparr>Name = ''Severity'', Value = Itoa (Severity ncdotDetails), Inline = False\<rparr>]
                 @ cameraFields;
               embed =
                 \<lparr>Title = siren_early @ '' NC DOT - New Vehicle Crash '' @ siren_early,
                  Color = color, Fields = fields, Footer = ''Source: NC DOT API'',
                  EmbedTimestamp = fmtRFC3339 lib (Timestamp incident),
                  Thumbnail = thumbnailOf lib key incident, Image = []\<rparr>;
               (evs2, result) =
                 postToWebhook env url
                   \<lparr>Username = ''Unified Alert Bot'', AvatarURL = [], Embeds = [embed]\<rparr>
           in (evs1 @ evs2, result)))"

definition sendRweccAlert ::
  "stdlib \<Rightarrow> env \<Rightarrow> string \<Rightarrow> string \<Rightarrow> UnifiedIncident \<Rightarrow> event list \<times> (error + string)" where
  "sendRweccAlert lib env url key incident =
     (case unmarshalStruct lib setRweccField (Details incident) zeroRwecc of
        (rweccDetails, True) \<Rightarrow> ([], Inl (UnmarshalDetails ''RWECC''))
      | (rweccDetails, False) \<Rightarrow>
          (let (evs1, cameraFields) = nearbyCameraFields env incident;
               fields =
                 [\<lparr>Name = ''Address'', Value = Address incident, Inline = False\<rparr>,
                  \<lparr>Name = ''Jurisdiction'', Value = Jurisdiction rweccDetails, Inline = False\<rparr>]
                 @ cameraFields;
               embed =
                 \<lparr>Title = blueCircle_early @ '' '' @ Problem rweccDetails @ '' '' @ blueCircle_early,
                  Color = 3447003, Fields = fields, Footer = ''Source: Raleigh-Wake ECC'',
                  EmbedTimestamp = fmtRFC3339 lib (Timestamp incident),
                  Thumbnail = thumbnailOf lib key incident, Image = []\<rparr>;
               (evs2, result) =
                 postToWebhook env url
                   \<lparr>Username = ''Unified Alert Bot'', AvatarURL = [], Embeds = [embed]\<rparr>
           in (evs1 @ evs2, result)))"

definition sendDiscordAlert_early ::
  "stdlib \<Rightarrow> env \<Rightarrow> string \<Rightarrow> string \<Rightarrow> UnifiedIncident \<Rightarrow> event list \<times> (error + string)" where
  "sendDiscordAlert_early lib env url key incident =
     (if Source incident = ''NCDOT'' then sendNcdotAlert lib env url key incident
      else if Source incident = ''RWECC'' then sendRweccAlert lib env url key incident
      else ([], Inl (UnknownSource (Source incident))))"

text \<open>
  The first loop of the earlier \<^verbatim>\<open>main\<close>. \<^verbatim>\<open>sentIDs\<close> is a \<^verbatim>\<open>map[int]bool\<close>: \<open>None\<close> is the nil
  map, which reads as empty and panics when written. The result says whether the loop
  panicked, and gives the events, \<^verbatim>\<open>newIncidentsFound\<close>, the map and the store.
\<close>

type_synonym sentIDs = "(int \<rightharpoonup> bool) option"

definition isSent :: "sentIDs \<Rightarrow> int \<Rightarrow> bool" where
  "isSent sent k =
     (case sent of
        None \<Rightarrow> False
      | Some m \<Rightarrow> (case m k of None \<Rightarrow> False | Some b \<Rightarrow> b))"

definition notifyOne_early ::
  "stdlib \<Rightarrow> env \<Rightarrow> config \<Rightarrow> UnifiedIncident \<Rightarrow> sentIDs \<Rightarrow> Row list
     \<Rightarrow> bool \<times> event list \<times> nat \<times> sentIDs \<times> Row list" where
  "notifyOne_early lib env cfg i sent store =
     (if \<not> isSent sent (ID i) then
        (case sendDiscordAlert_early lib env (webhookURL cfg) (mapsAPIKey cfg) i of
           (evs, Inl e) \<Rightarrow> (False, NotifyCall (ID i) # evs, 0, sent, store)
         | (evs, Inr messageID) \<Rightarrow>
             (case sent of
                None \<Rightarrow>
                  (True, NotifyCall (ID i) # evs, 0, sent,
                   execUpdate env (ID i) (Some messageID) store)
              | Some m \<Rightarrow>
                  (False, NotifyCall (ID i) # evs, 1, Some (m(ID i \<mapsto> True)),
                   execUpdate env (ID i) (Some messageID) store)))
      else (False, [], 0, sent, store))"

fun processNew_early ::
  "stdlib \<Rightarrow> env \<Rightarrow> config \<Rightarrow> (error + UnifiedIncident) list \<Rightarrow> sentIDs \<Rightarrow> Row list
     \<Rightarrow> bool \<times> event list \<times> nat \<times> sentIDs \<times> Row list" where
  "processNew_early lib env cfg [] sent store = (False, [], 0, sent, store)"
| "processNew_early lib env cfg (Inl e # rows) sent store =
     processNew_early lib env cfg rows sent store"
| "processNew_early lib env cfg (Inr i # rows) sent store =
     (case notifyOne_early lib env cfg i sent store of
        (True, evs, n, sent1, store1) \<Rightarrow> (True, evs, n, sent1, store1)
      | (False, evs, n, sent1, store1) \<Rightarrow>
          (case processNew_early lib env cfg rows sent1 store1 of
             (panicked, evs', n', sent2, store2) \<Rightarrow> (panicked, evs @ evs', n + n', sent2, store2)))"

section \<open>Example inputs\<close>

text \<open>
  The documents of the examples, as bytes and as the trees a JSON scanner reads from them,
  and incidents that carry them.
\<close>

definition ncdotText :: string where
  \<open>ncdotText =
     ''{"raw_incident":{"reason":"Crash","road":"I-40","location":"Exit 12","severity":2},"weather":null}''\<close>

definition rweccLegacyText :: string where
  \<open>rweccLegacyText = ''{"problem":"Water main break","jurisdiction":"Raleigh"}''\<close>

definition arcGisNoCaseText :: string where
  \<open>arcGisNoCaseText =
     ''{"raw_incident":{"case_number":"NO_CASE-123","crime_description":"Larceny","agency":"RPD"}}''\<close>

definition arcGisCaseText :: string where
  \<open>arcGisCaseText =
     ''{"raw_incident":{"case_number":"P24-0457","crime_description":"Larceny","agency":"RPD"}}''\<close>

definition exampleDocs :: "(string \<times> json) list" where
  "exampleDocs =
     [(ncdotText,
       JObject [(''raw_incident'',
                 JObject [(''reason'', JString ''Crash''), (''road'', JString ''I-40''),
                          (''location'', JString ''Exit 12''), (''severity'', JNumber ''2'')]),
                (''weather'', JNull)]),
      (rweccLegacyText,
       JObject [(''problem'', JString ''Water main break''), (''jurisdiction'', JString ''Raleigh'')]),
      (arcGisNoCaseText,
       JObject [(''raw_incident'',
                 JObject [(''case_number'', JString ''NO_CASE-123''),
                          (''crime_description'', JString ''Larceny''), (''agency'', JString ''RPD'')])]),
      (arcGisCaseText,
       JObject [(''raw_incident'',
                 JObject [(''case_number'', JString ''P24-0457''),
                          (''crime_description'', JString ''Larceny''), (''agency'', JString ''RPD'')])])]"

definition exampleLib :: stdlib where
  "exampleLib =
     \<lparr>jsonScan = map_of exampleDocs, fmtFloat6 = (\<lambda>x. ''35.779600''),
      fmtRFC3339 = (\<lambda>t. ''2024-05-01T12:00:00Z''), fmtNewYork = (\<lambda>t. ''Wed, May 1, 8:00 AM'')\<rparr>"

definition exampleIncident :: "int \<Rightarrow> string \<Rightarrow> string \<Rightarrow> UnifiedIncident" where
  "exampleIncident n src details =
     \<lparr>ID = n, Source = src, SourceID = ''S-1'', EventType = ''Incident'', Address = ''100 Main St'',
      Latitude = None, Longitude = None, Timestamp = 0, Details = details,
      DiscordMessageID = None\<rparr>"

definition exampleCameras :: "Camera list" where
  "exampleCameras =
     [\<lparr>CameraName = ''I-40 at Exit 12'', ImageURL = ''https://cams.example/1.jpg''\<rparr>,
      \<lparr>CameraName = ''I-40 at Exit 13'', ImageURL = ''https://cams.example/2.jpg''\<rparr>,
      \<lparr>CameraName = ''US-1 North'', ImageURL = ''https://cams.example/3.jpg''\<rparr>,
      \<lparr>CameraName = ''US-1 South'', ImageURL = ''https://cams.example/4.jpg''\<rparr>]"

text \<open>
  An environment in which every collaborator answers, and variants of it in which the
  webhook, the store or the capture fails.
\<close>

definition exampleEnv :: env where
  "exampleEnv =
     \<lparr>camerasByDistance = (\<lambda>lat lon. Inr exampleCameras),
      fetchImage = (\<lambda>n c. Inr ''20240501120000''),
      tempFile = (\<lambda>name. ''/tmp/'' @ name),
      openFails = (\<lambda>path. False),
      httpPost = (\<lambda>u p a. Inr ''1234567890''),
      httpPatch = (\<lambda>u p. None),
      timeNow = (\<lambda>m. 0),
      queryNewFails = False,
      queryClearedFails = False,
      scanFails = (\<lambda>r. False),
      execFails = (\<lambda>n v. False)\<rparr>"

definition exampleCfg :: config where
  "exampleCfg = \<lparr>webhookURL = ''https://discord.example/hook'', mapsAPIKey = [], notifyDiscord = []\<rparr>"

definition activeRow :: Row where
  "activeRow = \<lparr>Incident = exampleIncident 1 ''NCDOT'' ncdotText, Status = ''active''\<rparr>"

definition clearedRow :: Row where
  "clearedRow =
     \<lparr>Incident = (exampleIncident 2 ''RWECC'' rweccLegacyText)\<lparr>DiscordMessageID := Some ''555''\<rparr>,
      Status = ''cleared''\<rparr>"

definition exampleStore :: "Row list" where
  "exampleStore = [activeRow, clearedRow]"

definition debugCfg :: config where
  "debugCfg = exampleCfg\<lparr>notifyDiscord := ''0''\<rparr>"

definition noCameraEnv :: env where
  "noCameraEnv = exampleEnv\<lparr>camerasByDistance := (\<lambda>lat lon. Inr [])\<rparr>"

definition failingEnv :: env where
  "failingEnv = exampleEnv\<lparr>httpPost := (\<lambda>u p a. Inl (Failure ''503 Service Unavailable''))\<rparr>"

definition failedCaptureEnv :: env where
  "failedCaptureEnv = exampleEnv\<lparr>fetchImage := (\<lambda>n c. Inl (Failure ''bad status: 404 Not Found''))\<rparr>"

definition failedEditEnv :: env where
  "failedEditEnv = exampleEnv\<lparr>httpPatch := (\<lambda>u p. Some (Failure ''404 Not Found''))\<rparr>"

definition located :: "UnifiedIncident \<Rightarrow> UnifiedIncident" where
  "located i = i\<lparr>Latitude := Some 35.7796, Longitude := Some (- 78.6382)\<rparr>"

section \<open>Properties of the builders\<close>

lemma otherCameraFields_Name:
  "f \<in> set (otherCameraFields cams) \<Longrightarrow> Name f = ''Other Live Cameras''"
  by (auto simp: otherCameraFields_def split: if_splits)

lemma weatherFields_Name:
  "f \<in> set (weatherFields w) \<Longrightarrow> Name f = ''Weather Conditions''"
  by (auto simp: weatherFields_def split: option.splits)

lemma unmarshalMap_object:
  "jsonScan lib d = Some (JObject kvs) \<Longrightarrow> unmarshalMap lib d = Some (map_of (rev kvs))"
  by (simp add: unmarshalMap_def)

lemma map_of_rev_None:
  "k \<notin> fst ` set kvs \<Longrightarrow> map_of (rev kvs) k = None"
  by (simp add: map_of_eq_None_iff)

lemma decodeStruct_not_object:
  "decodeMap j = None \<Longrightarrow> decodeStruct setField j s = (s, True)"
  by (cases j) simp_all

text \<open>
  When the fallback runs, the document is no object, and the second \<^verbatim>\<open>Unmarshal\<close> stores
  nothing.
\<close>

lemma fallback_stores_nothing:
  "unmarshalMap lib d = None \<Longrightarrow> unmarshalStruct lib setField d s = (s, True)"
  by (auto simp: unmarshalMap_def unmarshalStruct_def decodeStruct_not_object split: option.splits)

lemma usesFallback_iff:
  "usesFallback lib d =
     (case jsonScan lib d of
        None \<Rightarrow> True
      | Some JNull \<Rightarrow> False
      | Some (JObject kvs) \<Rightarrow> False
      | Some _ \<Rightarrow> True)"
  by (simp add: usesFallback_def unmarshalMap_def split: option.splits json.splits)

text \<open>
  C4. For the details document
  \<^verbatim>\<open>{"raw_incident":{"reason":"Crash","road":"I-40","location":"Exit 12","severity":2},"weather":null}\<close>
  the NCDOT builder gives an embed of color 16776960 whose fields are Reason = Crash,
  Road = I-40, Location = Exit 12 and Severity = 2, followed only by the camera links:
  no field is named "Weather Conditions". For every details document the color is
  3066993 for severity 1, 16776960 for 2, 15158332 for 3 and 2105893 otherwise.
\<close>

theorem buildNcdotPayload_example_and_colors:
  assumes "jsonScan lib (Details incident) =
     Some (JObject [(''raw_incident'',
                     JObject [(''reason'', JString ''Crash''), (''road'', JString ''I-40''),
                              (''location'', JString ''Exit 12''), (''severity'', JNumber ''2'')]),
                    (''weather'', JNull)])"
  shows "buildNcdotPayload lib key incident cams att =
      \<lparr>Username = ''Unified Alert Bot'', AvatarURL = [],
       Embeds =
         [\<lparr>Title = siren @ '' NC DOT - Incident Alert '' @ siren, Color = 16776960,
           Fields =
             [\<lparr>Name = ''Reason'', Value = ''Crash'', Inline = False\<rparr>,
              \<lparr>Name = ''Road'', Value = ''I-40'', Inline = False\<rparr>,
              \<lparr>Name = ''Location'', Value = ''Exit 12'', Inline = False\<rparr>,
              \<lparr>Name = ''Severity'', Value = ''2'', Inline = False\<rparr>]
             @ otherCameraFields cams,
           Footer = ''Source: NC DOT API'', EmbedTimestamp = fmtRFC3339 lib (Timestamp incident),
           Thumbnail = thumbnailOf lib key incident, Image = attachmentImage att\<rparr>]\<rparr>
    \<and> (\<forall>f \<in> set (Fields (hd (Embeds (buildNcdotPayload lib key incident cams att)))).
          Name f \<noteq> ''Weather Conditions'')
    \<and> (\<forall>i. Color (hd (Embeds (buildNcdotPayload lib key i cams att))) =
          (let severity = Severity (fst (parseNcdot lib (Details i)))
           in if severity = 1 then 3066993
              else if severity = 2 then 16776960
              else if severity = 3 then 15158332
              else 2105893))"
proof -
  have p: "parseNcdot lib (Details incident) =
      (\<lparr>Reason = ''Crash'', Road = ''I-40'', Location = ''Exit 12'', Severity = 2\<rparr>, None)"
    using assms
    by (simp add: parseNcdot_def unmarshalMap_def weatherOf_def setNcdotField_def fieldFor_def
        zeroNcdot_def ParseInt_def digitVal_def)
  have payload: "buildNcdotPayload lib key incident cams att =
      \<lparr>Username = ''Unified Alert Bot'', AvatarURL = [],
       Embeds =
         [\<lparr>Title = siren @ '' NC DOT - Incident Alert '' @ siren, Color = 16776960,
           Fields =
             [\<lparr>Name = ''Reason'', Value = ''Crash'', Inline = False\<rparr>,
              \<lparr>Name = ''Road'', Value = ''I-40'', Inline = False\<rparr>,
              \<lparr>Name = ''Location'', Value = ''Exit 12'', Inline = False\<rparr>,
              \<lparr>Name = ''Severity'', Value = ''2'', Inline = False\<rparr>]
             @ otherCameraFields cams,
           Footer = ''Source: NC DOT API'', EmbedTimestamp = fmtRFC3339 lib (Timestamp incident),
           Thumbnail = thumbnailOf lib key incident, Image = attachmentImage att\<rparr>]\<rparr>"
    by (simp add: buildNcdotPayload_def p severityColor_def weatherFields_def Itoa_def
        digitsOf.simps)
  have noWeather: "\<forall>f \<in> set (Fields (hd (Embeds (buildNcdotPayload lib key incident cams att)))).
      Name f \<noteq> ''Weather Conditions''"
    unfolding payload using otherCameraFields_Name by auto
  have colors: "Color (hd (Embeds (buildNcdotPayload lib key i cams att))) =
      (let severity = Severity (fst (parseNcdot lib (Details i)))
       in if severity = 1 then 3066993
          else if severity = 2 then 16776960
          else if severity = 3 then 15158332
          else 2105893)" for i
    by (simp add: buildNcdotPayload_def severityColor_def Let_def split: prod.splits)
  show ?thesis
    using payload noWeather colors by blast
qed

theorem buildNcdotPayload_example_and_colors_witness:
  "jsonScan exampleLib (Details (exampleIncident 1 ''NCDOT'' ncdotText)) =
     Some (JObject [(''raw_incident'',
                     JObject [(''reason'', JString ''Crash''), (''road'', JString ''I-40''),
                              (''location'', JString ''Exit 12''), (''severity'', JNumber ''2'')]),
                    (''weather'', JNull)])
   \<and> Color (hd (Embeds (buildNcdotPayload exampleLib [] (exampleIncident 1 ''NCDOT'' ncdotText) [] [])))
       = 16776960
   \<and> map Name (Fields (hd (Embeds
        (buildNcdotPayload exampleLib [] (exampleIncident 1 ''NCDOT'' ncdotText) [] []))))
       = [''Reason'', ''Road'', ''Location'', ''Severity'']
   \<and> map Value (Fields (hd (Embeds
        (buildNcdotPayload exampleLib [] (exampleIncident 1 ''NCDOT'' ncdotText) [] []))))
       = [''Crash'', ''I-40'', ''Exit 12'', ''2'']"
proof -
  have h: "jsonScan exampleLib (Details (exampleIncident 1 ''NCDOT'' ncdotText)) =
     Some (JObject [(''raw_incident'',
                     JObject [(''reason'', JString ''Crash''), (''road'', JString ''I-40''),
                              (''location'', JString ''Exit 12''), (''severity'', JNumber ''2'')]),
                    (''weather'', JNull)])"
    by (simp add: exampleLib_def exampleDocs_def exampleIncident_def ncdotText_def)
  show ?thesis
    using h buildNcdotPayload_example_and_colors
      [OF h, of "[]" "[]" "[]"]
    by (simp add: otherCameraFields_def)
qed

text \<open>
  C10. When the details bytes are a JSON object, the NCDOT and RWECC builders take the
  new-shape path: the fallback does not run. When the object has no member
  \<^verbatim>\<open>raw_incident\<close>, every field of the source keeps its zero value: the NCDOT embed has the
  color 2105893, empty Reason, Road and Location and Severity 0; the RWECC embed has an
  empty problem in its title and an empty Jurisdiction. The fallback runs exactly when
  the bytes are no JSON at all, or a JSON value that is neither an object nor
  \<^verbatim>\<open>null\<close>.
\<close>

theorem object_details_take_new_shape:
  assumes "jsonScan lib d = Some (JObject kvs)"
  shows "\<not> usesFallback lib d \<and>
     (''raw_incident'' \<notin> fst ` set kvs \<longrightarrow>
        fst (parseNcdot lib d) = zeroNcdot \<and> fst (parseRwecc lib d) = zeroRwecc \<and>
        (\<forall>key i cams att. Details i = d \<longrightarrow>
           Color (hd (Embeds (buildNcdotPayload lib key i cams att))) = 2105893 \<and>
           take 4 (Fields (hd (Embeds (buildNcdotPayload lib key i cams att)))) =
             [\<lparr>Name = ''Reason'', Value = [], Inline = False\<rparr>,
              \<lparr>Name = ''Road'', Value = [], Inline = False\<rparr>,
              \<lparr>Name = ''Location'', Value = [], Inline = False\<rparr>,
              \<lparr>Name = ''Severity'', Value = ''0'', Inline = False\<rparr>] \<and>
           Title (hd (Embeds (buildRweccPayload lib key i cams att))) =
             blueCircle @ ''  '' @ blueCircle \<and>
           take 2 (Fields (hd (Embeds (buildRweccPayload lib key i cams att)))) =
             [\<lparr>Name = ''Address'', Value = Address i, Inline = False\<rparr>,
              \<lparr>Name = ''Jurisdiction'', Value = [], Inline = False\<rparr>])) \<and>
     (\<forall>d'. usesFallback lib d' =
        (case jsonScan lib d' of
           None \<Rightarrow> True
         | Some JNull \<Rightarrow> False
         | Some (JObject kvs') \<Rightarrow> False
         | Some _ \<Rightarrow> True))"
proof -
  have m: "unmarshalMap lib d = Some (map_of (rev kvs))"
    using assms by (rule unmarshalMap_object)
  have nf: "\<not> usesFallback lib d"
    by (simp add: usesFallback_def m)
  have z: "parseNcdot lib d = (zeroNcdot, weatherOf (map_of (rev kvs)))"
    "parseRwecc lib d = (zeroRwecc, weatherOf (map_of (rev kvs)))"
    if "''raw_incident'' \<notin> fst ` set kvs"
    using that by (simp_all add: parseNcdot_def parseRwecc_def m map_of_rev_None)
  have b: "Color (hd (Embeds (buildNcdotPayload lib key i cams att))) = 2105893 \<and>
           take 4 (Fields (hd (Embeds (buildNcdotPayload lib key i cams att)))) =
             [\<lparr>Name = ''Reason'', Value = [], Inline = False\<rparr>,
              \<lparr>Name = ''Road'', Value = [], Inline = False\<rparr>,
              \<lparr>Name = ''Location'', Value = [], Inline = False\<rparr>,
              \<lparr>Name = ''Severity'', Value = ''0'', Inline = False\<rparr>] \<and>
           Title (hd (Embeds (buildRweccPayload lib key i cams att))) =
             blueCircle @ ''  '' @ blueCircle \<and>
           take 2 (Fields (hd (Embeds (buildRweccPayload lib key i cams att)))) =
             [\<lparr>Name = ''Address'', Value = Address i, Inline = False\<rparr>,
              \<lparr>Name = ''Jurisdiction'', Value = [], Inline = False\<rparr>]"
    if "''raw_incident'' \<notin> fst ` set kvs" and "Details i = d" for key i cams att
    using z[OF that(1)] that(2)
    by (simp add: buildNcdotPayload_def buildRweccPayload_def severityColor_def zeroNcdot_def
        zeroRwecc_def Itoa_def digitsOf.simps)
  show ?thesis
    using nf z b usesFallback_iff by auto
qed

theorem object_details_take_new_shape_witness:
  "jsonScan exampleLib rweccLegacyText =
     Some (JObject [(''problem'', JString ''Water main break''), (''jurisdiction'', JString ''Raleigh'')])
   \<and> \<not> usesFallback exampleLib rweccLegacyText
   \<and> fst (parseRwecc exampleLib rweccLegacyText) = zeroRwecc
   \<and> fst (parseNcdot exampleLib rweccLegacyText) = zeroNcdot
   \<and> Color (hd (Embeds (buildNcdotPayload exampleLib []
        (exampleIncident 2 ''NCDOT'' rweccLegacyText) [] []))) = 2105893
   \<and> usesFallback exampleLib ''[1, 2''"
proof -
  have h: "jsonScan exampleLib rweccLegacyText =
     Some (JObject [(''problem'', JString ''Water main break''), (''jurisdiction'', JString ''Raleigh'')])"
    by (simp add: exampleLib_def exampleDocs_def rweccLegacyText_def ncdotText_def)
  have n: "jsonScan exampleLib ''[1, 2'' = None"
    by (simp add: exampleLib_def exampleDocs_def rweccLegacyText_def ncdotText_def
        arcGisNoCaseText_def arcGisCaseText_def)
  have k: "''raw_incident'' \<notin> fst ` set [(''problem'', JString ''Water main break''),
      (''jurisdiction'', JString ''Raleigh'')]"
    by simp
  have d: "Details (exampleIncident 2 ''NCDOT'' rweccLegacyText) = rweccLegacyText"
    by (simp add: exampleIncident_def)
  show ?thesis
    using h n k d object_details_take_new_shape [OF h]
    by simp
qed

text \<open>
  C5, later generation. The legacy-shape document
  \<^verbatim>\<open>{"problem":"Water main break","jurisdiction":"Raleigh"}\<close> is a JSON object, so
  \<^verbatim>\<open>buildRweccPayload\<close> reads it as the new shape, finds no \<^verbatim>\<open>raw_incident\<close> and never reaches
  its fallback: the title holds no problem text and the Jurisdiction is empty. The color
  is 3447003 and there is no weather field. The earlier generation, \<^verbatim>\<open>sendRweccAlert\<close>,
  posts the problem text in the title and Raleigh as Jurisdiction.
\<close>

theorem buildRweccPayload_legacy_document:
  assumes "jsonScan lib (Details incident) =
     Some (JObject [(''problem'', JString ''Water main break''), (''jurisdiction'', JString ''Raleigh'')])"
  shows "buildRweccPayload lib key incident cams att =
      \<lparr>Username = ''Unified Alert Bot'', AvatarURL = [],
       Embeds =
         [\<lparr>Title = blueCircle @ ''  '' @ blueCircle, Color = 3447003,
           Fields =
             [\<lparr>Name = ''Address'', Value = Address incident, Inline = False\<rparr>,
              \<lparr>Name = ''Jurisdiction'', Value = [], Inline = False\<rparr>]
             @ otherCameraFields cams,
           Footer = ''Source: Raleigh-Wake ECC'',
           EmbedTimestamp = fmtRFC3339 lib (Timestamp incident),
           Thumbnail = thumbnailOf lib key incident, Image = attachmentImage att\<rparr>]\<rparr>
    \<and> \<not> sublist ''Water main break''
          (Title (hd (Embeds (buildRweccPayload lib key incident cams att))))
    \<and> sendRweccAlert lib env url key incident =
        (let (evs, cameraFields) = nearbyCameraFields env incident;
             payload =
               \<lparr>Username = ''Unified Alert Bot'', AvatarURL = [],
                Embeds =
                  [\<lparr>Title = blueCircle_early @ '' Water main break '' @ blueCircle_early,
                    Color = 3447003,
                    Fields =
                      [\<lparr>Name = ''Address'', Value = Address incident, Inline = False\<rparr>,
                       \<lparr>Name = ''Jurisdiction'', Value = ''Raleigh'', Inline = False\<rparr>]
                      @ cameraFields,
                    Footer = ''Source: Raleigh-Wake ECC'',
                    EmbedTimestamp = fmtRFC3339 lib (Timestamp incident),
                    Thumbnail = thumbnailOf lib key incident, Image = []\<rparr>]\<rparr>
         in (evs @ [Post (url @ ''?wait=true'') payload []],
             httpPost env (url @ ''?wait=true'') payload []))"
proof -
  have p: "parseRwecc lib (Details incident) = (zeroRwecc, None)"
    using assms by (simp add: parseRwecc_def unmarshalMap_def weatherOf_def)
  have later: "buildRweccPayload lib key incident cams att =
      \<lparr>Username = ''Unified Alert Bot'', AvatarURL = [],
       Embeds =
         [\<lparr>Title = blueCircle @ ''  '' @ blueCircle, Color = 3447003,
           Fields =
             [\<lparr>Name = ''Address'', Value = Address incident, Inline = False\<rparr>,
              \<lparr>Name = ''Jurisdiction'', Value = [], Inline = False\<rparr>]
             @ otherCameraFields cams,
           Footer = ''Source: Raleigh-Wake ECC'',
           EmbedTimestamp = fmtRFC3339 lib (Timestamp incident),
           Thumbnail = thumbnailOf lib key incident, Image = attachmentImage att\<rparr>]\<rparr>"
    by (simp add: buildRweccPayload_def p zeroRwecc_def weatherFields_def)
  have title: "\<not> sublist ''Water main break''
      (Title (hd (Embeds (buildRweccPayload lib key incident cams att))))"
    unfolding later by (simp add: blueCircle_def sublist_code)
  have u: "unmarshalStruct lib setRweccField (Details incident) zeroRwecc =
      (\<lparr>Problem = ''Water main break'', Jurisdiction = ''Raleigh''\<rparr>, False)"
    using assms
    by (simp add: unmarshalStruct_def setRweccField_def fieldFor_def zeroRwecc_def)
  have early: "sendRweccAlert lib env url key incident =
        (let (evs, cameraFields) = nearbyCameraFields env incident;
             payload =
               \<lparr>Username = ''Unified Alert Bot'', AvatarURL = [],
                Embeds =
                  [\<lparr>Title = blueCircle_early @ '' Water main break '' @ blueCircle_early,
                    Color = 3447003,
                    Fields =
                      [\<lparr>Name = ''Address'', Value = Address incident, Inline = False\<rparr>,
                       \<lparr>Name = ''Jurisdiction'', Value = ''Raleigh'', Inline = False\<rparr>]
                      @ cameraFields,
                    Footer = ''Source: Raleigh-Wake ECC'',
                    EmbedTimestamp = fmtRFC3339 lib (Timestamp incident),
                    Thumbnail = thumbnailOf lib key incident, Image = []\<rparr>]\<rparr>
         in (evs @ [Post (url @ ''?wait=true'') payload []],
             httpPost env (url @ ''?wait=true'') payload []))"
    by (simp add: sendRweccAlert_def u postToWebhook_def Let_def split: prod.splits)
  show ?thesis
    using later title early by blast
qed

theorem buildRweccPayload_legacy_document_witness:
  "jsonScan exampleLib (Details (exampleIncident 3 ''RWECC'' rweccLegacyText)) =
     Some (JObject [(''problem'', JString ''Water main break''), (''jurisdiction'', JString ''Raleigh'')])
   \<and> Title (hd (Embeds (buildRweccPayload exampleLib []
        (exampleIncident 3 ''RWECC'' rweccLegacyText) [] []))) = blueCircle @ ''  '' @ blueCircle
   \<and> \<not> sublist ''Water main break''
        (Title (hd (Embeds (buildRweccPayload exampleLib []
           (exampleIncident 3 ''RWECC'' rweccLegacyText) [] []))))
   \<and> map Value (Fields (hd (Embeds (buildRweccPayload exampleLib []
        (exampleIncident 3 ''RWECC'' rweccLegacyText) [] [])))) = [''100 Main St'', []]"
proof -
  have h: "jsonScan exampleLib (Details (exampleIncident 3 ''RWECC'' rweccLegacyText)) =
     Some (JObject [(''problem'', JString ''Water main break''), (''jurisdiction'', JString ''Raleigh'')])"
    by (simp add: exampleLib_def exampleDocs_def exampleIncident_def rweccLegacyText_def
        ncdotText_def)
  have t: "buildRweccPayload exampleLib [] (exampleIncident 3 ''RWECC'' rweccLegacyText) [] [] =
      \<lparr>Username = ''Unified Alert Bot'', AvatarURL = [],
       Embeds =
         [\<lparr>Title = blueCircle @ ''  '' @ blueCircle, Color = 3447003,
           Fields =
             [\<lparr>Name = ''Address'',
               Value = Address (exampleIncident 3 ''RWECC'' rweccLegacyText), Inline = False\<rparr>,
              \<lparr>Name = ''Jurisdiction'', Value = [], Inline = False\<rparr>]
             @ otherCameraFields [],
           Footer = ''Source: Raleigh-Wake ECC'',
           EmbedTimestamp =
             fmtRFC3339 exampleLib (Timestamp (exampleIncident 3 ''RWECC'' rweccLegacyText)),
           Thumbnail = thumbnailOf exampleLib [] (exampleIncident 3 ''RWECC'' rweccLegacyText),
           Image = attachmentImage []\<rparr>]\<rparr>"
    using buildRweccPayload_legacy_document [OF h] by blast
  show ?thesis
    using h unfolding t
    by (simp add: otherCameraFields_def exampleIncident_def blueCircle_def sublist_code)
qed

text \<open>
  C7. In the payload of an ArcGIS incident the field "Case #" is left out when the parsed
  case number starts with \<^verbatim>\<open>NO_CASE-\<close>; for every other case number it is there once, with
  that case number as its value.
\<close>

theorem buildArcGisPayload_case_field:
  "filter (\<lambda>f. Name f = ''Case #'') (Fields (hd (Embeds (buildArcGisPayload lib key incident)))) =
     (if HasPrefix (CaseNumber (parseArcGis lib (Details incident))) ''NO_CASE-'' then []
      else [\<lparr>Name = ''Case #'', Value = CaseNumber (parseArcGis lib (Details incident)),
             Inline = False\<rparr>])"
  by (simp add: buildArcGisPayload_def Let_def)

theorem buildArcGisPayload_case_field_witness:
  "CaseNumber (parseArcGis exampleLib arcGisNoCaseText) = ''NO_CASE-123''
   \<and> map Name (Fields (hd (Embeds (buildArcGisPayload exampleLib []
        (exampleIncident 4 ''ArcGIS_Police'' arcGisNoCaseText))))) = [''Address'', ''Agency'', ''Reported'']
   \<and> filter (\<lambda>f. Name f = ''Case #'') (Fields (hd (Embeds (buildArcGisPayload exampleLib []
        (exampleIncident 4 ''ArcGIS_Police'' arcGisNoCaseText))))) = []
   \<and> filter (\<lambda>f. Name f = ''Case #'') (Fields (hd (Embeds (buildArcGisPayload exampleLib []
        (exampleIncident 5 ''ArcGIS_Police'' arcGisCaseText))))) =
       [\<lparr>Name = ''Case #'', Value = ''P24-0457'', Inline = False\<rparr>]"
proof -
  have a: "parseArcGis exampleLib arcGisNoCaseText =
      \<lparr>CaseNumber = ''NO_CASE-123'', CrimeDescription = ''Larceny'', Agency = ''RPD''\<rparr>"
    by (simp add: parseArcGis_def unmarshalMap_def exampleLib_def exampleDocs_def
        arcGisNoCaseText_def ncdotText_def rweccLegacyText_def setArcGisField_def fieldFor_def
        zeroArcGis_def)
  have b: "parseArcGis exampleLib arcGisCaseText =
      \<lparr>CaseNumber = ''P24-0457'', CrimeDescription = ''Larceny'', Agency = ''RPD''\<rparr>"
    by (simp add: parseArcGis_def unmarshalMap_def exampleLib_def exampleDocs_def
        arcGisNoCaseText_def arcGisCaseText_def ncdotText_def rweccLegacyText_def
        setArcGisField_def fieldFor_def zeroArcGis_def)
  have names: "map Name (Fields (hd (Embeds (buildArcGisPayload exampleLib []
        (exampleIncident 4 ''ArcGIS_Police'' arcGisNoCaseText))))) = [''Address'', ''Agency'', ''Reported'']"
    by (simp add: buildArcGisPayload_def Let_def exampleIncident_def a HasPrefix_def)
  show ?thesis
    using a b names
      buildArcGisPayload_case_field [of exampleLib "[]" "exampleIncident 4 ''ArcGIS_Police'' arcGisNoCaseText"]
      buildArcGisPayload_case_field [of exampleLib "[]" "exampleIncident 5 ''ArcGIS_Police'' arcGisCaseText"]
    by (simp add: exampleIncident_def HasPrefix_def)
qed

section \<open>Properties of sending\<close>

lemma nearbyCamerasOf_events:
  "e \<in> set (fst (nearbyCamerasOf env i)) \<Longrightarrow> \<exists>a b. e = CameraQuery a b 3"
  by (auto simp: nearbyCamerasOf_def split: option.splits)

lemma captureCameraImage_events:
  "e \<in> set (fst (captureCameraImage env n c)) \<Longrightarrow>
     e = Capture n c \<or> (\<exists>p. e = AuditInsert n (CameraName c) p)"
  by (auto simp: captureCameraImage_def Let_def split: sum.splits)

lemma attachmentOf_events:
  assumes "e \<in> set (fst (attachmentOf env i cams))"
  shows "(\<exists>c. e = Capture (ID i) c) \<or> (\<exists>s p. e = AuditInsert (ID i) s p)"
proof (cases cams)
  case Nil
  with assms show ?thesis by (simp add: attachmentOf_def)
next
  case (Cons c rest)
  with assms have "e \<in> set (fst (captureCameraImage env (ID i) c))"
    by (auto simp: attachmentOf_def split: prod.splits sum.splits)
  then show ?thesis
    using captureCameraImage_events by blast
qed

lemma postMultipartToWebhook_events:
  "e \<in> set (fst (postMultipartToWebhook env url p a)) \<Longrightarrow> e = Post (url @ ''?wait=true'') p a"
  by (auto simp: postMultipartToWebhook_def split: if_splits)

lemma sendDiscordAlert_events:
  assumes "e \<in> set (fst (sendDiscordAlert lib env url key i))"
  shows "(\<exists>a b. e = CameraQuery a b 3) \<or> (\<exists>c. e = Capture (ID i) c) \<or>
     (\<exists>s p. e = AuditInsert (ID i) s p) \<or> (\<exists>u p a. e = Post u p a) \<or> (\<exists>p. e = Remove p)"
proof -
  have "e \<in> set (fst (nearbyCamerasOf env i)) \<or>
        e \<in> set (fst (attachmentOf env i (snd (nearbyCamerasOf env i)))) \<or>
        (\<exists>p a. e \<in> set (fst (postMultipartToWebhook env url p a))) \<or> (\<exists>p. e = Remove p)"
    using assms
    by (auto simp: sendDiscordAlert_def Let_def case_prod_beta split: if_splits)
  then consider "e \<in> set (fst (nearbyCamerasOf env i))"
    | "e \<in> set (fst (attachmentOf env i (snd (nearbyCamerasOf env i))))"
    | p a where "e \<in> set (fst (postMultipartToWebhook env url p a))"
    | p where "e = Remove p"
    by blast
  then show ?thesis
  proof cases
    case 1
    then show ?thesis by (auto dest: nearbyCamerasOf_events)
  next
    case 2
    then show ?thesis by (auto dest: attachmentOf_events)
  next
    case 3
    then show ?thesis by (auto dest: postMultipartToWebhook_events)
  next
    case 4
    then show ?thesis by simp
  qed
qed

lemma sendDiscordAlert_no_NotifyCall:
  "NotifyCall k \<notin> set (fst (sendDiscordAlert lib env url key i))"
  by (auto dest: sendDiscordAlert_events)

text \<open>The shape of \<^verbatim>\<open>sendDiscordAlert\<close> for each class of source.\<close>

lemma sendDiscordAlert_ArcGis:
  "Source i = ''ArcGIS_Police'' \<Longrightarrow>
   sendDiscordAlert lib env url key i =
     postMultipartToWebhook env url (buildArcGisPayload lib key i) []"
  by (simp add: sendDiscordAlert_def)

lemma sendDiscordAlert_unknown:
  assumes "Source i \<noteq> ''ArcGIS_Police''" "Source i \<noteq> ''NCDOT''" "Source i \<noteq> ''RWECC''"
  shows "sendDiscordAlert lib env url key i =
     (fst (nearbyCamerasOf env i) @ fst (attachmentOf env i (snd (nearbyCamerasOf env i)))
        @ (if fst (snd (attachmentOf env i (snd (nearbyCamerasOf env i)))) \<noteq> []
           then [Remove (fst (snd (attachmentOf env i (snd (nearbyCamerasOf env i)))))] else []),
      Inl (UnknownSource (Source i)))"
  using assms by (simp add: sendDiscordAlert_def Let_def split: prod.splits)

lemma sendDiscordAlert_unknown_no_post:
  assumes "Source i \<noteq> ''ArcGIS_Police''" "Source i \<noteq> ''NCDOT''" "Source i \<noteq> ''RWECC''"
  shows "Post u p a \<notin> set (fst (sendDiscordAlert lib env url key i))"
proof
  assume "Post u p a \<in> set (fst (sendDiscordAlert lib env url key i))"
  then have "Post u p a \<in> set (fst (nearbyCamerasOf env i)) \<or>
      Post u p a \<in> set (fst (attachmentOf env i (snd (nearbyCamerasOf env i))))"
    unfolding sendDiscordAlert_unknown [OF assms] by (auto split: if_splits)
  then show False
    by (auto dest: nearbyCamerasOf_events attachmentOf_events)
qed

section \<open>The store under the two loops\<close>

lemma setMessageID_ids:
  "map (\<lambda>r. ID (Incident r)) (setMessageID k v store) = map (\<lambda>r. ID (Incident r)) store"
  by (induction store) (simp_all add: setMessageID_def)

lemma setMessageID_status:
  "map Status (setMessageID k v store) = map Status store"
  by (induction store) (simp_all add: setMessageID_def)

lemma setMessageID_other:
  "r \<in> set store \<Longrightarrow> ID (Incident r) \<noteq> k \<Longrightarrow> r \<in> set (setMessageID k v store)"
  by (force simp: setMessageID_def)

lemma setMessageID_same:
  "r \<in> set store \<Longrightarrow> ID (Incident r) = k \<Longrightarrow>
   r\<lparr>Incident := (Incident r)\<lparr>DiscordMessageID := v\<rparr>\<rparr> \<in> set (setMessageID k v store)"
  by (force simp: setMessageID_def)

lemma execUpdate_ids:
  "map (\<lambda>r. ID (Incident r)) (execUpdate env k v store) = map (\<lambda>r. ID (Incident r)) store"
  by (simp add: execUpdate_def setMessageID_ids)

lemma execUpdate_status:
  "map Status (execUpdate env k v store) = map Status store"
  by (simp add: execUpdate_def setMessageID_status)

lemma execUpdate_other:
  "r \<in> set store \<Longrightarrow> ID (Incident r) \<noteq> k \<Longrightarrow> r \<in> set (execUpdate env k v store)"
  by (simp add: execUpdate_def setMessageID_other)

text \<open>One turn of the first loop.\<close>

lemma notifyOne_cases:
  "notifyOne lib env cfg i store =
     (if notifyDiscord cfg = ''0'' then ([], 0, store)
      else (NotifyCall (ID i) # fst (sendDiscordAlert lib env (webhookURL cfg) (mapsAPIKey cfg) i),
            (case snd (sendDiscordAlert lib env (webhookURL cfg) (mapsAPIKey cfg) i) of
               Inl e \<Rightarrow> (0, store)
             | Inr m \<Rightarrow> (1, execUpdate env (ID i) (Some m) store))))"
  by (simp add: notifyOne_def split: prod.splits sum.splits)

lemma notifyOne_ids:
  "map (\<lambda>r. ID (Incident r)) (snd (snd (notifyOne lib env cfg i store))) =
     map (\<lambda>r. ID (Incident r)) store"
  by (simp add: notifyOne_cases execUpdate_ids split: sum.splits)

lemma notifyOne_status:
  "map Status (snd (snd (notifyOne lib env cfg i store))) = map Status store"
  by (simp add: notifyOne_cases execUpdate_status split: sum.splits)

lemma notifyOne_other:
  "r \<in> set store \<Longrightarrow> ID (Incident r) \<noteq> ID i \<Longrightarrow>
   r \<in> set (snd (snd (notifyOne lib env cfg i store)))"
  by (simp add: notifyOne_cases execUpdate_other split: sum.splits)

lemma notifyOne_NotifyCall:
  "NotifyCall k \<in> set (fst (notifyOne lib env cfg i store)) \<Longrightarrow> k = ID i"
  by (auto simp: notifyOne_cases sendDiscordAlert_no_NotifyCall split: if_splits)

lemma notifyOne_count:
  "count_list (fst (notifyOne lib env cfg i store)) (NotifyCall (ID i)) =
     (if notifyDiscord cfg = ''0'' then 0 else 1)"
  by (simp add: notifyOne_cases sendDiscordAlert_no_NotifyCall count_list_0_iff)

lemma notifyOne_send_fails:
  "snd (sendDiscordAlert lib env (webhookURL cfg) (mapsAPIKey cfg) i) = Inl e \<Longrightarrow>
   snd (notifyOne lib env cfg i store) = (0, store)"
  by (simp add: notifyOne_cases)

text \<open>The first loop.\<close>

lemma processNew_Inr:
  "processNew lib env cfg (Inr i # rows) store =
     (fst (notifyOne lib env cfg i store)
        @ fst (processNew lib env cfg rows (snd (snd (notifyOne lib env cfg i store)))),
      fst (snd (notifyOne lib env cfg i store))
        + fst (snd (processNew lib env cfg rows (snd (snd (notifyOne lib env cfg i store))))),
      snd (snd (processNew lib env cfg rows (snd (snd (notifyOne lib env cfg i store))))))"
  by (simp add: case_prod_beta)

lemma processNew_append:
  "processNew lib env cfg (xs @ ys) store =
     (fst (processNew lib env cfg xs store)
        @ fst (processNew lib env cfg ys (snd (snd (processNew lib env cfg xs store)))),
      fst (snd (processNew lib env cfg xs store))
        + fst (snd (processNew lib env cfg ys (snd (snd (processNew lib env cfg xs store))))),
      snd (snd (processNew lib env cfg ys (snd (snd (processNew lib env cfg xs store))))))"
proof (induction xs arbitrary: store)
  case Nil
  show ?case by simp
next
  case (Cons x xs)
  show ?case
  proof (cases x)
    case (Inl e)
    with Cons show ?thesis by simp
  next
    case (Inr i)
    show ?thesis
      unfolding Inr append_Cons processNew_Inr
      by (simp add: Cons.IH)
  qed
qed

lemma processNew_ids:
  "map (\<lambda>r. ID (Incident r)) (snd (snd (processNew lib env cfg rows store))) =
     map (\<lambda>r. ID (Incident r)) store"
proof (induction rows arbitrary: store)
  case Nil
  show ?case by simp
next
  case (Cons x xs)
  show ?case
  proof (cases x)
    case (Inl e)
    with Cons show ?thesis by simp
  next
    case (Inr i)
    show ?thesis
      unfolding Inr processNew_Inr by (simp add: Cons.IH notifyOne_ids)
  qed
qed

lemma processNew_status:
  "map Status (snd (snd (processNew lib env cfg rows store))) = map Status store"
proof (induction rows arbitrary: store)
  case Nil
  show ?case by simp
next
  case (Cons x xs)
  show ?case
  proof (cases x)
    case (Inl e)
    with Cons show ?thesis by simp
  next
    case (Inr i)
    show ?thesis
      unfolding Inr processNew_Inr by (simp add: Cons.IH notifyOne_status)
  qed
qed

lemma processNew_other:
  "r \<in> set store \<Longrightarrow> (\<And>i. Inr i \<in> set rows \<Longrightarrow> ID i \<noteq> ID (Incident r)) \<Longrightarrow>
   r \<in> set (snd (snd (processNew lib env cfg rows store)))"
proof (induction rows arbitrary: store)
  case Nil
  then show ?case by simp
next
  case (Cons x xs)
  show ?case
  proof (cases x)
    case (Inl e)
    with Cons show ?thesis by simp
  next
    case (Inr i)
    have "ID (Incident r) \<noteq> ID i"
      using Cons.prems(2) [of i] Inr by auto
    then have "r \<in> set (snd (snd (notifyOne lib env cfg i store)))"
      using Cons.prems(1) by (simp add: notifyOne_other)
    then show ?thesis
      unfolding Inr processNew_Inr using Cons.IH Cons.prems(2) by simp
  qed
qed

lemma processNew_NotifyCall:
  "NotifyCall k \<in> set (fst (processNew lib env cfg rows store)) \<Longrightarrow>
   \<exists>i. Inr i \<in> set rows \<and> ID i = k"
proof (induction rows arbitrary: store)
  case Nil
  then show ?case by simp
next
  case (Cons x xs)
  show ?case
  proof (cases x)
    case (Inl e)
    with Cons show ?thesis by auto
  next
    case (Inr i)
    with Cons.prems have "NotifyCall k \<in> set (fst (notifyOne lib env cfg i store)) \<or>
        NotifyCall k \<in> set (fst (processNew lib env cfg xs (snd (snd (notifyOne lib env cfg i store)))))"
      unfolding Inr processNew_Inr by simp
    then show ?thesis
      using Cons.IH notifyOne_NotifyCall Inr by fastforce
  qed
qed

lemma processNew_no_EditCall:
  "EditCall k \<notin> set (fst (processNew lib env cfg rows store))"
proof (induction rows arbitrary: store)
  case Nil
  show ?case by simp
next
  case (Cons x xs)
  show ?case
  proof (cases x)
    case (Inl e)
    with Cons show ?thesis by simp
  next
    case (Inr i)
    have "EditCall k \<notin> set (fst (notifyOne lib env cfg i store))"
      by (auto simp: notifyOne_cases dest: sendDiscordAlert_events split: if_splits)
    then show ?thesis
      unfolding Inr processNew_Inr using Cons.IH by simp
  qed
qed

lemma processNew_notifies:
  "notifyDiscord cfg \<noteq> ''0'' \<Longrightarrow> Inr i \<in> set rows \<Longrightarrow>
   NotifyCall (ID i) \<in> set (fst (processNew lib env cfg rows store))"
proof (induction rows arbitrary: store)
  case Nil
  then show ?case by simp
next
  case (Cons x xs)
  show ?case
  proof (cases x)
    case (Inl e)
    with Cons show ?thesis by auto
  next
    case (Inr j)
    show ?thesis
    proof (cases "j = i")
      case True
      then show ?thesis
        unfolding Inr processNew_Inr using Cons.prems(1) by (simp add: notifyOne_cases)
    next
      case False
      then have "Inr i \<in> set xs"
        using Cons.prems(2) Inr by simp
      then show ?thesis
        unfolding Inr processNew_Inr using Cons.IH Cons.prems(1) by simp
    qed
  qed
qed

text \<open>One turn of the second loop, and the second loop.\<close>

lemma updateDiscordAlert_events:
  "fst (updateDiscordAlert lib env url m i) =
     [Patch (url @ ''/messages/'' @ m) (clearedPayload lib (timeNow env m) i)]"
  by (simp add: updateDiscordAlert_def Let_def)

lemma clearOne_cases:
  "clearOne lib env cfg i store =
     (EditCall (ID i)
        # fst (updateDiscordAlert lib env (webhookURL cfg) (NullString_String (DiscordMessageID i)) i),
      (case snd (updateDiscordAlert lib env (webhookURL cfg)
                  (NullString_String (DiscordMessageID i)) i) of
         Some e \<Rightarrow> (0, store)
       | None \<Rightarrow> (1, execUpdate env (ID i) None store)))"
  by (simp add: clearOne_def split: prod.splits option.splits)

lemma clearOne_ids:
  "map (\<lambda>r. ID (Incident r)) (snd (snd (clearOne lib env cfg i store))) =
     map (\<lambda>r. ID (Incident r)) store"
  by (simp add: clearOne_cases execUpdate_ids split: option.splits)

lemma clearOne_status:
  "map Status (snd (snd (clearOne lib env cfg i store))) = map Status store"
  by (simp add: clearOne_cases execUpdate_status split: option.splits)

lemma clearOne_other:
  "r \<in> set store \<Longrightarrow> ID (Incident r) \<noteq> ID i \<Longrightarrow>
   r \<in> set (snd (snd (clearOne lib env cfg i store)))"
  by (simp add: clearOne_cases execUpdate_other split: option.splits)

lemma clearOne_EditCall:
  "EditCall k \<in> set (fst (clearOne lib env cfg i store)) \<Longrightarrow> k = ID i"
  by (auto simp: clearOne_cases updateDiscordAlert_events)

lemma clearOne_no_NotifyCall:
  "NotifyCall k \<notin> set (fst (clearOne lib env cfg i store))"
  by (simp add: clearOne_cases updateDiscordAlert_events)

lemma processCleared_Inr:
  "processCleared lib env cfg (Inr i # rows) store =
     (fst (clearOne lib env cfg i store)
        @ fst (processCleared lib env cfg rows (snd (snd (clearOne lib env cfg i store)))),
      fst (snd (clearOne lib env cfg i store))
        + fst (snd (processCleared lib env cfg rows (snd (snd (clearOne lib env cfg i store))))),
      snd (snd (processCleared lib env cfg rows (snd (snd (clearOne lib env cfg i store))))))"
  by (simp add: case_prod_beta)

lemma processCleared_append:
  "processCleared lib env cfg (xs @ ys) store =
     (fst (processCleared lib env cfg xs store)
        @ fst (processCleared lib env cfg ys (snd (snd (processCleared lib env cfg xs store)))),
      fst (snd (processCleared lib env cfg xs store))
        + fst (snd (processCleared lib env cfg ys (snd (snd (processCleared lib env cfg xs store))))),
      snd (snd (processCleared lib env cfg ys (snd (snd (processCleared lib env cfg xs store))))))"
proof (induction xs arbitrary: store)
  case Nil
  show ?case by simp
next
  case (Cons x xs)
  show ?case
  proof (cases x)
    case (Inl e)
    with Cons show ?thesis by simp
  next
    case (Inr i)
    show ?thesis
      unfolding Inr append_Cons processCleared_Inr
      by (simp add: Cons.IH)
  qed
qed

lemma processCleared_ids:
  "map (\<lambda>r. ID (Incident r)) (snd (snd (processCleared lib env cfg rows store))) =
     map (\<lambda>r. ID (Incident r)) store"
proof (induction rows arbitrary: store)
  case Nil
  show ?case by simp
next
  case (Cons x xs)
  show ?case
  proof (cases x)
    case (Inl e)
    with Cons show ?thesis by simp
  next
    case (Inr i)
    show ?thesis
      unfolding Inr processCleared_Inr by (simp add: Cons.IH clearOne_ids)
  qed
qed

lemma processCleared_status:
  "map Status (snd (snd (processCleared lib env cfg rows store))) = map Status store"
proof (induction rows arbitrary: store)
  case Nil
  show ?case by simp
next
  case (Cons x xs)
  show ?case
  proof (cases x)
    case (Inl e)
    with Cons show ?thesis by simp
  next
    case (Inr i)
    show ?thesis
      unfolding Inr processCleared_Inr by (simp add: Cons.IH clearOne_status)
  qed
qed

lemma processCleared_other:
  "r \<in> set store \<Longrightarrow> (\<And>i. Inr i \<in> set rows \<Longrightarrow> ID i \<noteq> ID (Incident r)) \<Longrightarrow>
   r \<in> set (snd (snd (processCleared lib env cfg rows store)))"
proof (induction rows arbitrary: store)
  case Nil
  then show ?case by simp
next
  case (Cons x xs)
  show ?case
  proof (cases x)
    case (Inl e)
    with Cons show ?thesis by simp
  next
    case (Inr i)
    have "ID (Incident r) \<noteq> ID i"
      using Cons.prems(2) [of i] Inr by auto
    then have "r \<in> set (snd (snd (clearOne lib env cfg i store)))"
      using Cons.prems(1) by (simp add: clearOne_other)
    then show ?thesis
      unfolding Inr processCleared_Inr using Cons.IH Cons.prems(2) by simp
  qed
qed

lemma processCleared_EditCall:
  "EditCall k \<in> set (fst (processCleared lib env cfg rows store)) \<Longrightarrow>
   \<exists>i. Inr i \<in> set rows \<and> ID i = k"
proof (induction rows arbitrary: store)
  case Nil
  then show ?case by simp
next
  case (Cons x xs)
  show ?case
  proof (cases x)
    case (Inl e)
    with Cons show ?thesis by auto
  next
    case (Inr i)
    with Cons.prems have "EditCall k \<in> set (fst (clearOne lib env cfg i store)) \<or>
        EditCall k \<in> set (fst (processCleared lib env cfg xs (snd (snd (clearOne lib env cfg i store)))))"
      unfolding Inr processCleared_Inr by simp
    then show ?thesis
      using Cons.IH clearOne_EditCall Inr by fastforce
  qed
qed

lemma processCleared_no_NotifyCall:
  "NotifyCall k \<notin> set (fst (processCleared lib env cfg rows store))"
proof (induction rows arbitrary: store)
  case Nil
  show ?case by simp
next
  case (Cons x xs)
  show ?case
  proof (cases x)
    case (Inl e)
    with Cons show ?thesis by simp
  next
    case (Inr i)
    show ?thesis
      unfolding Inr processCleared_Inr using Cons.IH clearOne_no_NotifyCall by simp
  qed
qed

text \<open>The queries and the scans.\<close>

lemma scanNew_ID:
  "scanNew env r = Inr i \<Longrightarrow> ID i = ID (Incident r)"
  by (auto simp: scanNew_def split: if_splits)

lemma scanCleared_ID:
  "scanCleared env r = Inr i \<Longrightarrow> ID i = ID (Incident r)"
  by (auto simp: scanCleared_def split: if_splits)

lemma distinct_ids_unique:
  "distinct (map (\<lambda>r. ID (Incident r)) store) \<Longrightarrow> r \<in> set store \<Longrightarrow> r' \<in> set store \<Longrightarrow>
   ID (Incident r') = ID (Incident r) \<Longrightarrow> r' = r"
  by (meson distinct_map inj_onD)

lemma distinct_ids_split:
  assumes "distinct (map (\<lambda>r. ID (Incident r)) store)" "r \<in> set store"
  shows "\<exists>s1 s2. store = s1 @ r # s2 \<and>
     (\<forall>r' \<in> set s1. ID (Incident r') \<noteq> ID (Incident r)) \<and>
     (\<forall>r' \<in> set s2. ID (Incident r') \<noteq> ID (Incident r))"
proof -
  obtain s1 s2 where s: "store = s1 @ r # s2"
    using assms(2) by (meson split_list)
  have "distinct (map (\<lambda>r. ID (Incident r)) (s1 @ r # s2))"
    using assms(1) s by simp
  then have "ID (Incident r) \<notin> (\<lambda>r. ID (Incident r)) ` set s1"
    and "ID (Incident r) \<notin> (\<lambda>r. ID (Incident r)) ` set s2"
    by auto
  then have "(\<forall>r' \<in> set s1. ID (Incident r') \<noteq> ID (Incident r)) \<and>
     (\<forall>r' \<in> set s2. ID (Incident r') \<noteq> ID (Incident r))"
    by (metis imageI)
  with s show ?thesis by blast
qed

lemma batch_split:
  assumes "distinct (map (\<lambda>r. ID (Incident r)) store)" and "r \<in> set store" and "P r"
    and "\<And>r' i. scan r' = Inr i \<Longrightarrow> ID i = ID (Incident r')"
  shows "\<exists>B1 B2. map scan (filter P store) = B1 @ scan r # B2 \<and>
     (\<forall>i. Inr i \<in> set B1 \<longrightarrow> ID i \<noteq> ID (Incident r)) \<and>
     (\<forall>i. Inr i \<in> set B2 \<longrightarrow> ID i \<noteq> ID (Incident r))"
proof -
  obtain s1 s2 where s: "store = s1 @ r # s2"
    and s1: "\<forall>r' \<in> set s1. ID (Incident r') \<noteq> ID (Incident r)"
    and s2: "\<forall>r' \<in> set s2. ID (Incident r') \<noteq> ID (Incident r)"
    using distinct_ids_split [OF assms(1,2)] by blast
  have m: "map scan (filter P store) = map scan (filter P s1) @ scan r # map scan (filter P s2)"
    using s assms(3) by simp
  have b: "ID i \<noteq> ID (Incident r)" if "Inr i \<in> set (map scan (filter P s'))"
    and "\<forall>r' \<in> set s'. ID (Incident r') \<noteq> ID (Incident r)" for i s'
  proof -
    from that(1) have "\<exists>r'. r' \<in> set s' \<and> scan r' = Inr i"
      by (induction s') (auto split: if_splits)
    then obtain r' where "r' \<in> set s'" "scan r' = Inr i"
      by blast
    then show ?thesis
      using assms(4) [of r' i] that(2) by simp
  qed
  show ?thesis
    using m b s1 s2 by blast
qed

lemma batch_without:
  assumes "\<And>r'. r' \<in> set store \<Longrightarrow> P r' \<Longrightarrow> ID (Incident r') \<noteq> k"
    and "\<And>r' i. scan r' = Inr i \<Longrightarrow> ID i = ID (Incident r')"
    and "Inr i \<in> set (map scan (filter P store))"
  shows "ID i \<noteq> k"
proof -
  obtain r' where "r' \<in> set store" "P r'" "Inr i = scan r'"
    using assms(3) by auto
  then show ?thesis
    using assms(1) [of r'] assms(2) [of r' i] by simp
qed

text \<open>A failed send leaves the turn without effect on the store, in both generations.\<close>

lemma processNew_send_fails:
  assumes "snd (sendDiscordAlert lib env (webhookURL cfg) (mapsAPIKey cfg) i) = Inl e"
  shows "processNew lib env cfg (Inr i # rows) store =
     (case processNew lib env cfg rows store of
        (evs', n', store') \<Rightarrow> (fst (notifyOne lib env cfg i store) @ evs', n', store'))"
  unfolding processNew_Inr using notifyOne_send_fails [OF assms, of store]
  by (simp add: case_prod_beta)

lemma notifyOne_early_send_fails:
  assumes "snd (sendDiscordAlert_early lib env (webhookURL cfg) (mapsAPIKey cfg) i) = Inl e"
  shows "notifyOne_early lib env cfg i sent store =
     (False, fst (snd (notifyOne_early lib env cfg i sent store)), 0, sent, store)"
proof (cases "sendDiscordAlert_early lib env (webhookURL cfg) (mapsAPIKey cfg) i")
  case (Pair evs result)
  with assms have "result = Inl e" by simp
  with Pair show ?thesis
    by (simp add: notifyOne_early_def)
qed

lemma processNew_early_send_fails:
  assumes "snd (sendDiscordAlert_early lib env (webhookURL cfg) (mapsAPIKey cfg) i) = Inl e"
  shows "processNew_early lib env cfg (Inr i # rows) sent store =
     (case processNew_early lib env cfg rows sent store of
        (panicked, evs', n', sent', store') \<Rightarrow>
          (panicked, fst (snd (notifyOne_early lib env cfg i sent store)) @ evs', n', sent', store'))"
proof -
  obtain evs where "notifyOne_early lib env cfg i sent store = (False, evs, 0, sent, store)"
    using notifyOne_early_send_fails [OF assms] by blast
  then show ?thesis
    by (simp split: prod.splits)
qed

lemma sendDiscordAlert_early_unknown:
  "Source i \<noteq> ''NCDOT'' \<Longrightarrow> Source i \<noteq> ''RWECC'' \<Longrightarrow>
   sendDiscordAlert_early lib env url key i = ([], Inl (UnknownSource (Source i)))"
  by (simp add: sendDiscordAlert_early_def)

lemma processNew_middle:
  "processNew lib env cfg (B1 @ x # B2) store =
     (let a = processNew lib env cfg B1 store;
          b = processNew lib env cfg [x] (snd (snd a));
          c = processNew lib env cfg B2 (snd (snd b))
      in (fst a @ fst b @ fst c, fst (snd a) + fst (snd b) + fst (snd c), snd (snd c)))"
proof -
  have "B1 @ x # B2 = B1 @ ([x] @ B2)" by simp
  then show ?thesis
    by (simp only: processNew_append fst_conv snd_conv add.assoc Let_def)
qed

lemma processCleared_middle:
  "processCleared lib env cfg (B1 @ x # B2) store =
     (let a = processCleared lib env cfg B1 store;
          b = processCleared lib env cfg [x] (snd (snd a));
          c = processCleared lib env cfg B2 (snd (snd b))
      in (fst a @ fst b @ fst c, fst (snd a) + fst (snd b) + fst (snd c), snd (snd c)))"
proof -
  have "B1 @ x # B2 = B1 @ ([x] @ B2)" by simp
  then show ?thesis
    by (simp only: processCleared_append fst_conv snd_conv add.assoc Let_def)
qed

lemma processNew_single:
  "processNew lib env cfg [Inr i] store = notifyOne lib env cfg i store"
  by (simp add: case_prod_beta)

lemma processCleared_single:
  "processCleared lib env cfg [Inr i] store = clearOne lib env cfg i store"
  by (simp add: case_prod_beta)

text \<open>The run as a whole.\<close>

lemma pass2_keeps_row:
  assumes d: "distinct (map (\<lambda>r. ID (Incident r)) s)" and r: "r \<in> set s"
    and st: "Status r \<noteq> ''cleared''"
  shows "r \<in> set (snd (snd (processCleared lib env cfg (map (scanCleared env) (selectCleared s)) s)))"
proof (rule processCleared_other [OF r])
  fix i
  assume i: "Inr i \<in> set (map (scanCleared env) (selectCleared s))"
  have other: "ID (Incident r') \<noteq> ID (Incident r)"
    if "r' \<in> set s" and "Status r' = ''cleared'' \<and> DiscordMessageID (Incident r') \<noteq> None" for r'
    using distinct_ids_unique [OF d r that(1)] that(2) st by auto
  show "ID i \<noteq> ID (Incident r)"
    using batch_without [of s "\<lambda>r. Status r = ''cleared'' \<and> DiscordMessageID (Incident r) \<noteq> None"
        "ID (Incident r)" "scanCleared env" i] other scanCleared_ID i
    unfolding selectCleared_def by blast
qed

lemma main_cases:
  assumes "webhookURL cfg \<noteq> []" and "\<not> queryNewFails env"
    and "main lib env cfg store = (x, evs, store')"
  shows "\<exists>evs2. evs = fst (processNew lib env cfg (map (scanNew env) (selectNew store)) store) @ evs2
      \<and> (\<forall>k. NotifyCall k \<notin> set evs2)
      \<and> (store' = snd (snd (processNew lib env cfg (map (scanNew env) (selectNew store)) store))
         \<or> store' = snd (snd (processCleared lib env cfg
               (map (scanCleared env)
                  (selectCleared (snd (snd (processNew lib env cfg (map (scanNew env) (selectNew store)) store)))))
               (snd (snd (processNew lib env cfg (map (scanNew env) (selectNew store)) store))))))"
proof (cases "queryClearedFails env")
  case True
  with assms have "evs = fst (processNew lib env cfg (map (scanNew env) (selectNew store)) store) @ []"
    and "store' = snd (snd (processNew lib env cfg (map (scanNew env) (selectNew store)) store))"
    by (auto simp: main_def pass1_def pass2_def split: prod.splits)
  then show ?thesis by (metis empty_iff empty_set)
next
  case False
  with assms have "evs = fst (processNew lib env cfg (map (scanNew env) (selectNew store)) store)
        @ fst (processCleared lib env cfg
               (map (scanCleared env)
                  (selectCleared (snd (snd (processNew lib env cfg (map (scanNew env) (selectNew store)) store)))))
               (snd (snd (processNew lib env cfg (map (scanNew env) (selectNew store)) store))))"
    and "store' = snd (snd (processCleared lib env cfg
               (map (scanCleared env)
                  (selectCleared (snd (snd (processNew lib env cfg (map (scanNew env) (selectNew store)) store)))))
               (snd (snd (processNew lib env cfg (map (scanNew env) (selectNew store)) store)))))"
    by (auto simp: main_def pass1_def pass2_def split: prod.splits)
  then show ?thesis
    using processCleared_no_NotifyCall by blast
qed

lemma main_ids:
  assumes "main lib env cfg store = (x, evs, store')"
  shows "map (\<lambda>r. ID (Incident r)) store' = map (\<lambda>r. ID (Incident r)) store"
  using assms
  by (auto simp: main_def pass1_def pass2_def processNew_ids processCleared_ids
      split: if_splits prod.splits option.splits
      dest!: arg_cong [where f = "\<lambda>p. map (\<lambda>r. ID (Incident r)) (snd (snd p))"])

lemma main_NotifyCall:
  assumes "main lib env cfg store = (x, evs, store')" and "NotifyCall k \<in> set evs"
  shows "\<exists>r \<in> set (selectNew store). ID (Incident r) = k"
proof -
  have "NotifyCall k \<in> set (fst (processNew lib env cfg (map (scanNew env) (selectNew store)) store))"
    using assms processCleared_no_NotifyCall
    by (auto simp: main_def pass1_def pass2_def split: if_splits prod.splits option.splits
        dest!: arg_cong [where f = fst])
  then obtain i where "Inr i \<in> set (map (scanNew env) (selectNew store))" "ID i = k"
    using processNew_NotifyCall by blast
  then obtain r where "r \<in> set (selectNew store)" "Inr i = scanNew env r"
    by auto
  then show ?thesis
    using scanNew_ID [of env r i] \<open>ID i = k\<close> by auto
qed

section \<open>Properties of the run\<close>

lemma scanNew_selected:
  "\<not> scanFails env r \<Longrightarrow> DiscordMessageID (Incident r) = None \<Longrightarrow> scanNew env r = Inr (Incident r)"
  by (cases "Incident r") (simp add: scanNew_def)

lemma selected_batch:
  assumes d: "distinct (map (\<lambda>r. ID (Incident r)) store)" and r: "r \<in> set store"
    and act: "Status r = ''active''" and null: "DiscordMessageID (Incident r) = None"
  shows "\<exists>B1 B2. map (scanNew env) (selectNew store) = B1 @ scanNew env r # B2 \<and>
     (\<forall>i. Inr i \<in> set B1 \<longrightarrow> ID i \<noteq> ID (Incident r)) \<and>
     (\<forall>i. Inr i \<in> set B2 \<longrightarrow> ID i \<noteq> ID (Incident r))"
  using batch_split [OF d r, of "\<lambda>r. Status r = ''active'' \<and> DiscordMessageID (Incident r) = None"
      "scanNew env"] act null scanNew_ID
  unfolding selectNew_def by blast

text \<open>
  C1, as amended. Take a store with distinct ids, a row of it with status \<^verbatim>\<open>active\<close> and no
  message id, and a run of \<^verbatim>\<open>main\<close> with \<^verbatim>\<open>DISCORD_HOOK\<close> set and \<^verbatim>\<open>NOTIFY_DISCORD\<close> other than
  \<^verbatim>\<open>0\<close>, in which the first query and the scan of the row succeed. The run calls
  \<^verbatim>\<open>sendDiscordAlert\<close> for that incident exactly once. When the call returns a message id
  and the store accepts the \<^verbatim>\<open>UPDATE\<close>, the row holds that id after the run, and no later
  run, whatever its environment, calls \<^verbatim>\<open>sendDiscordAlert\<close> for the incident again.
\<close>

theorem new_incident_notified_once:
  assumes d: "distinct (map (\<lambda>r. ID (Incident r)) store)"
    and r: "r \<in> set store"
    and act: "Status r = ''active''"
    and null: "DiscordMessageID (Incident r) = None"
    and hook: "webhookURL cfg \<noteq> []"
    and query: "\<not> queryNewFails env"
    and scan: "\<not> scanFails env r"
    and on: "notifyDiscord cfg \<noteq> ''0''"
    and run: "main lib env cfg store = (x, evs, store')"
  shows "count_list evs (NotifyCall (ID (Incident r))) = 1 \<and>
     (\<forall>m. snd (sendDiscordAlert lib env (webhookURL cfg) (mapsAPIKey cfg) (Incident r)) = Inr m \<and>
          \<not> execFails env (ID (Incident r)) (Some m) \<longrightarrow>
          r\<lparr>Incident := (Incident r)\<lparr>DiscordMessageID := Some m\<rparr>\<rparr> \<in> set store' \<and>
          (\<forall>lib2 env2 cfg2 x2 evs2 store2.
             main lib2 env2 cfg2 store' = (x2, evs2, store2) \<longrightarrow>
             NotifyCall (ID (Incident r)) \<notin> set evs2))"
proof -
  let ?k = "ID (Incident r)"
  let ?batch = "map (scanNew env) (selectNew store)"
  let ?p = "processNew lib env cfg ?batch store"
  have sc: "scanNew env r = Inr (Incident r)"
    using scan null by (rule scanNew_selected)
  obtain B1 B2 where b: "?batch = B1 @ Inr (Incident r) # B2"
    and b1: "\<forall>i. Inr i \<in> set B1 \<longrightarrow> ID i \<noteq> ?k"
    and b2: "\<forall>i. Inr i \<in> set B2 \<longrightarrow> ID i \<noteq> ?k"
    using selected_batch [OF d r act null, of env] sc by auto
  define s1 where "s1 = snd (snd (processNew lib env cfg B1 store))"
  define s2 where "s2 = snd (snd (notifyOne lib env cfg (Incident r) s1))"
  have p: "?p = (fst (processNew lib env cfg B1 store) @ fst (notifyOne lib env cfg (Incident r) s1)
        @ fst (processNew lib env cfg B2 s2),
      fst (snd (processNew lib env cfg B1 store)) + fst (snd (notifyOne lib env cfg (Incident r) s1))
        + fst (snd (processNew lib env cfg B2 s2)),
      snd (snd (processNew lib env cfg B2 s2)))"
    unfolding b processNew_middle Let_def processNew_single s1_def s2_def ..
  obtain evs2 where evs: "evs = fst ?p @ evs2" and evs2: "\<forall>k. NotifyCall k \<notin> set evs2"
    and st: "store' = snd (snd ?p) \<or>
       store' = snd (snd (processCleared lib env cfg
          (map (scanCleared env) (selectCleared (snd (snd ?p)))) (snd (snd ?p))))"
    using main_cases [OF hook query run] by blast
  have c1: "count_list (fst (processNew lib env cfg B1 store)) (NotifyCall ?k) = 0"
    using processNew_NotifyCall [of ?k lib env cfg B1 store] b1 by (auto simp: count_list_0_iff)
  have c2: "count_list (fst (notifyOne lib env cfg (Incident r) s1)) (NotifyCall ?k) = 1"
    using on by (simp add: notifyOne_count)
  have c3: "count_list (fst (processNew lib env cfg B2 s2)) (NotifyCall ?k) = 0"
    using processNew_NotifyCall [of ?k lib env cfg B2 s2] b2 by (auto simp: count_list_0_iff)
  have c4: "count_list evs2 (NotifyCall ?k) = 0"
    using evs2 by (simp add: count_list_0_iff)
  have count: "count_list evs (NotifyCall ?k) = 1"
    unfolding evs p using c1 c2 c3 c4 by simp
  have ids: "map (\<lambda>r. ID (Incident r)) store' = map (\<lambda>r. ID (Incident r)) store"
    using run by (rule main_ids)
  have d': "distinct (map (\<lambda>r. ID (Incident r)) store')"
    using d ids by simp
  have upd: "r\<lparr>Incident := (Incident r)\<lparr>DiscordMessageID := Some m\<rparr>\<rparr> \<in> set store' \<and>
      (\<forall>lib2 env2 cfg2 x2 evs2 store2.
         main lib2 env2 cfg2 store' = (x2, evs2, store2) \<longrightarrow> NotifyCall ?k \<notin> set evs2)"
    if ok: "snd (sendDiscordAlert lib env (webhookURL cfg) (mapsAPIKey cfg) (Incident r)) = Inr m"
      and ex: "\<not> execFails env ?k (Some m)" for m
  proof -
    let ?r' = "r\<lparr>Incident := (Incident r)\<lparr>DiscordMessageID := Some m\<rparr>\<rparr>"
    have r1: "r \<in> set s1"
      unfolding s1_def using processNew_other [OF r] b1 by blast
    have "s2 = setMessageID ?k (Some m) s1"
      unfolding s2_def using on ok ex by (simp add: notifyOne_cases execUpdate_def)
    then have r2: "?r' \<in> set s2"
      using setMessageID_same [OF r1] by simp
    have k': "ID (Incident ?r') = ?k"
      by simp
    have r3: "?r' \<in> set (snd (snd ?p))"
      unfolding p using processNew_other [OF r2, of B2] b2 k' by simp
    have d3: "distinct (map (\<lambda>r. ID (Incident r)) (snd (snd ?p)))"
      using d by (simp add: processNew_ids)
    have "Status ?r' \<noteq> ''cleared''"
      using act by simp
    then have r4: "?r' \<in> set store'"
      using st r3 pass2_keeps_row [OF d3 r3] by auto
    have again: "NotifyCall ?k \<notin> set evs2"
      if run2: "main lib2 env2 cfg2 store' = (x2, evs2, store2)" for lib2 env2 cfg2 x2 evs2 store2
    proof
      assume "NotifyCall ?k \<in> set evs2"
      then obtain r'' where "r'' \<in> set (selectNew store')" "ID (Incident r'') = ?k"
        using main_NotifyCall [OF run2] by blast
      then have "r'' \<in> set store'" and n: "DiscordMessageID (Incident r'') = None"
        and "ID (Incident r'') = ID (Incident ?r')"
        by (auto simp: selectNew_def)
      then have "r'' = ?r'"
        using distinct_ids_unique [OF d' r4] by blast
      with n show False by simp
    qed
    show ?thesis
      using r4 again by blast
  qed
  show ?thesis
    using count upd by blast
qed

lemma send_example:
  "sendDiscordAlert exampleLib exampleEnv (webhookURL exampleCfg) (mapsAPIKey exampleCfg)
     (exampleIncident 1 ''NCDOT'' ncdotText) =
   ([Post ''https://discord.example/hook?wait=true''
       (buildNcdotPayload exampleLib [] (exampleIncident 1 ''NCDOT'' ncdotText) [] []) []],
    Inr ''1234567890'')"
  by (simp add: sendDiscordAlert_def nearbyCamerasOf_def attachmentOf_def exampleIncident_def
      postMultipartToWebhook_def exampleEnv_def exampleCfg_def)

text \<open>
  The claim without the amendment fails in debug mode: with \<^verbatim>\<open>NOTIFY_DISCORD=0\<close> the run
  completes and calls \<^verbatim>\<open>sendDiscordAlert\<close> for no incident.
\<close>

theorem new_incident_debug_mode_counterexample:
  "Status activeRow = ''active'' \<and> DiscordMessageID (Incident activeRow) = None \<and>
   main exampleLib exampleEnv debugCfg [activeRow] = (Completed, [], [activeRow]) \<and>
   count_list (fst (snd (main exampleLib exampleEnv debugCfg [activeRow])))
     (NotifyCall (ID (Incident activeRow))) = 0"
  by (simp add: main_def pass1_def pass2_def selectNew_def selectCleared_def
      activeRow_def scanNew_def notifyOne_def debugCfg_def
      exampleEnv_def exampleCfg_def exampleIncident_def)

theorem new_incident_notified_once_witness:
  "count_list (fst (snd (main exampleLib exampleEnv exampleCfg exampleStore))) (NotifyCall 1) = 1 \<and>
   activeRow\<lparr>Incident := (Incident activeRow)\<lparr>DiscordMessageID := Some ''1234567890''\<rparr>\<rparr>
     \<in> set (snd (snd (main exampleLib exampleEnv exampleCfg exampleStore))) \<and>
   NotifyCall 1 \<notin> set (fst (snd (main exampleLib exampleEnv exampleCfg
     (snd (snd (main exampleLib exampleEnv exampleCfg exampleStore))))))"
proof -
  have d: "distinct (map (\<lambda>r. ID (Incident r)) exampleStore)"
    by (simp add: exampleStore_def activeRow_def clearedRow_def exampleIncident_def)
  have r: "activeRow \<in> set exampleStore"
    by (simp add: exampleStore_def)
  have act: "Status activeRow = ''active''"
    by (simp add: activeRow_def)
  have null: "DiscordMessageID (Incident activeRow) = None"
    by (simp add: activeRow_def exampleIncident_def)
  have k: "ID (Incident activeRow) = 1"
    by (simp add: activeRow_def exampleIncident_def)
  have hook: "webhookURL exampleCfg \<noteq> []"
    by (simp add: exampleCfg_def)
  have query: "\<not> queryNewFails exampleEnv"
    by (simp add: exampleEnv_def)
  have scan: "\<not> scanFails exampleEnv activeRow"
    by (simp add: exampleEnv_def)
  have on: "notifyDiscord exampleCfg \<noteq> ''0''"
    by (simp add: exampleCfg_def)
  have ex: "\<not> execFails exampleEnv (ID (Incident activeRow)) (Some ''1234567890'')"
    by (simp add: exampleEnv_def)
  have send: "snd (sendDiscordAlert exampleLib exampleEnv (webhookURL exampleCfg)
      (mapsAPIKey exampleCfg) (Incident activeRow)) = Inr ''1234567890''"
    using send_example by (simp add: activeRow_def)
  obtain x evs store' where run: "main exampleLib exampleEnv exampleCfg exampleStore = (x, evs, store')"
    by (metis prod.collapse)
  obtain x2 evs2 store2 where run2: "main exampleLib exampleEnv exampleCfg store' = (x2, evs2, store2)"
    by (metis prod.collapse)
  show ?thesis
    using new_incident_notified_once [OF d r act null hook query scan on run] send ex run run2
    unfolding k by simp blast
qed

lemma cleared_batch:
  assumes d: "distinct (map (\<lambda>r. ID (Incident r)) store)" and r: "r \<in> set store"
    and cl: "Status r = ''cleared''" and some: "DiscordMessageID (Incident r) = Some m"
  shows "\<exists>B1 B2. map (scanCleared env) (selectCleared store) = B1 @ scanCleared env r # B2 \<and>
     (\<forall>i. Inr i \<in> set B1 \<longrightarrow> ID i \<noteq> ID (Incident r)) \<and>
     (\<forall>i. Inr i \<in> set B2 \<longrightarrow> ID i \<noteq> ID (Incident r))"
  using batch_split [OF d r, of "\<lambda>r. Status r = ''cleared'' \<and> DiscordMessageID (Incident r) \<noteq> None"
      "scanCleared env"] cl some scanCleared_ID
  unfolding selectCleared_def by simp

text \<open>
  C2. Take a store with distinct ids and a row of it with status \<^verbatim>\<open>cleared\<close> and message id
  \<open>m\<close>, and a run of the second pass that reads the row. Among the events of the pass
  there is exactly one call of \<^verbatim>\<open>updateDiscordAlert\<close> for the incident, and it sends one
  \<^verbatim>\<open>PATCH\<close> to \<^verbatim>\<open>{webhook}/messages/m\<close> with the cleared payload: the title "Incident Cleared"
  between two check marks, the color 3066993, the fields Source and Address of the row, the
  footer "Incident no longer in active feed" and the clock of the edit as time stamp. When
  that edit succeeds, the \<^verbatim>\<open>UPDATE\<close> to \<^verbatim>\<open>NULL\<close> is executed, and the row has no message id
  after the pass when the store accepts it. When the edit fails, or the store refuses the
  \<^verbatim>\<open>UPDATE\<close>, the row is in the store unchanged.
\<close>

theorem cleared_incident_edited_once:
  assumes d: "distinct (map (\<lambda>r. ID (Incident r)) store)"
    and r: "r \<in> set store"
    and cl: "Status r = ''cleared''"
    and some: "DiscordMessageID (Incident r) = Some m"
    and scan: "\<not> scanFails env r"
    and run: "pass2 lib env cfg store = Some (evs, n, store')"
  shows "(\<exists>pre post.
        evs = pre
          @ [EditCall (ID (Incident r)),
             Patch (webhookURL cfg @ ''/messages/'' @ m)
               \<lparr>Username = [], AvatarURL = [],
                Embeds =
                  [\<lparr>Title = checkMark @ '' Incident Cleared '' @ checkMark, Color = 3066993,
                    Fields =
                      [\<lparr>Name = ''Source'', Value = Source (Incident r), Inline = False\<rparr>,
                       \<lparr>Name = ''Address'', Value = Address (Incident r), Inline = False\<rparr>],
                    Footer = ''Incident no longer in active feed'',
                    EmbedTimestamp = fmtRFC3339 lib (timeNow env m),
                    Thumbnail = [], Image = []\<rparr>]\<rparr>]
          @ post \<and>
        EditCall (ID (Incident r)) \<notin> set pre \<and> EditCall (ID (Incident r)) \<notin> set post) \<and>
     (httpPatch env (webhookURL cfg @ ''/messages/'' @ m)
          \<lparr>Username = [], AvatarURL = [],
           Embeds =
             [\<lparr>Title = checkMark @ '' Incident Cleared '' @ checkMark, Color = 3066993,
               Fields =
                 [\<lparr>Name = ''Source'', Value = Source (Incident r), Inline = False\<rparr>,
                  \<lparr>Name = ''Address'', Value = Address (Incident r), Inline = False\<rparr>],
               Footer = ''Incident no longer in active feed'',
               EmbedTimestamp = fmtRFC3339 lib (timeNow env m),
               Thumbnail = [], Image = []\<rparr>]\<rparr> = None \<and>
      \<not> execFails env (ID (Incident r)) None \<longrightarrow>
      r\<lparr>Incident := (Incident r)\<lparr>DiscordMessageID := None\<rparr>\<rparr> \<in> set store') \<and>
     (httpPatch env (webhookURL cfg @ ''/messages/'' @ m)
          \<lparr>Username = [], AvatarURL = [],
           Embeds =
             [\<lparr>Title = checkMark @ '' Incident Cleared '' @ checkMark, Color = 3066993,
               Fields =
                 [\<lparr>Name = ''Source'', Value = Source (Incident r), Inline = False\<rparr>,
                  \<lparr>Name = ''Address'', Value = Address (Incident r), Inline = False\<rparr>],
               Footer = ''Incident no longer in active feed'',
               EmbedTimestamp = fmtRFC3339 lib (timeNow env m),
               Thumbnail = [], Image = []\<rparr>]\<rparr> \<noteq> None \<or>
      execFails env (ID (Incident r)) None \<longrightarrow>
      r \<in> set store')"
proof -
  let ?k = "ID (Incident r)"
  let ?url = "webhookURL cfg @ ''/messages/'' @ m"
  let ?X = "zeroIncident\<lparr>ID := ID (Incident r), Source := Source (Incident r),
      Address := Address (Incident r), DiscordMessageID := DiscordMessageID (Incident r)\<rparr>"
  let ?payload = "clearedPayload lib (timeNow env m) ?X"
  have payload: "?payload =
      \<lparr>Username = [], AvatarURL = [],
       Embeds =
         [\<lparr>Title = checkMark @ '' Incident Cleared '' @ checkMark, Color = 3066993,
           Fields =
             [\<lparr>Name = ''Source'', Value = Source (Incident r), Inline = False\<rparr>,
              \<lparr>Name = ''Address'', Value = Address (Incident r), Inline = False\<rparr>],
           Footer = ''Incident no longer in active feed'',
           EmbedTimestamp = fmtRFC3339 lib (timeNow env m),
           Thumbnail = [], Image = []\<rparr>]\<rparr>"
    by (simp add: clearedPayload_def)
  have sc: "scanCleared env r = Inr ?X"
    using scan by (simp add: scanCleared_def)
  obtain B1 B2 where b: "map (scanCleared env) (selectCleared store) = B1 @ Inr ?X # B2"
    and b1: "\<forall>i. Inr i \<in> set B1 \<longrightarrow> ID i \<noteq> ?k"
    and b2: "\<forall>i. Inr i \<in> set B2 \<longrightarrow> ID i \<noteq> ?k"
    using cleared_batch [OF d r cl some, of env] sc by auto
  define s1 where "s1 = snd (snd (processCleared lib env cfg B1 store))"
  define s2 where "s2 = snd (snd (clearOne lib env cfg ?X s1))"
  have p: "processCleared lib env cfg (map (scanCleared env) (selectCleared store)) store =
     (fst (processCleared lib env cfg B1 store) @ fst (clearOne lib env cfg ?X s1)
        @ fst (processCleared lib env cfg B2 s2),
      fst (snd (processCleared lib env cfg B1 store)) + fst (snd (clearOne lib env cfg ?X s1))
        + fst (snd (processCleared lib env cfg B2 s2)),
      snd (snd (processCleared lib env cfg B2 s2)))"
    unfolding b processCleared_middle Let_def processCleared_single s1_def s2_def ..
  have run': "evs = fst (processCleared lib env cfg (map (scanCleared env) (selectCleared store)) store)"
    "store' = snd (snd (processCleared lib env cfg (map (scanCleared env) (selectCleared store)) store))"
    using run by (auto simp: pass2_def split: if_splits)
  have one: "fst (clearOne lib env cfg ?X s1) = [EditCall ?k, Patch ?url ?payload]"
    using some by (simp add: clearOne_cases updateDiscordAlert_events NullString_String_def)
  have pre: "EditCall ?k \<notin> set (fst (processCleared lib env cfg B1 store))"
    using processCleared_EditCall [of ?k lib env cfg B1 store] b1 by blast
  have post: "EditCall ?k \<notin> set (fst (processCleared lib env cfg B2 s2))"
    using processCleared_EditCall [of ?k lib env cfg B2 s2] b2 by blast
  have events: "\<exists>pre post. evs = pre @ [EditCall ?k, Patch ?url ?payload] @ post \<and>
      EditCall ?k \<notin> set pre \<and> EditCall ?k \<notin> set post"
    unfolding run'(1) p fst_conv one using pre post by blast
  have upd: "r\<lparr>Incident := (Incident r)\<lparr>DiscordMessageID := None\<rparr>\<rparr> \<in> set store'"
    if ok: "httpPatch env ?url ?payload = None" and ex: "\<not> execFails env ?k None"
  proof -
    let ?r' = "r\<lparr>Incident := (Incident r)\<lparr>DiscordMessageID := None\<rparr>\<rparr>"
    have r1: "r \<in> set s1"
      unfolding s1_def using processCleared_other [OF r] b1 by blast
    have "s2 = setMessageID ?k None s1"
      unfolding s2_def using some ok ex
      by (simp add: clearOne_cases execUpdate_def updateDiscordAlert_def NullString_String_def Let_def)
    then have r2: "?r' \<in> set s2"
      using setMessageID_same [OF r1] by simp
    have k': "ID (Incident ?r') = ?k"
      by simp
    show ?thesis
      unfolding run'(2) p using processCleared_other [OF r2, of B2] b2 k' by simp
  qed
  have kept: "r \<in> set store'"
    if no: "httpPatch env ?url ?payload \<noteq> None \<or> execFails env ?k None"
  proof -
    have r1: "r \<in> set s1"
      unfolding s1_def using processCleared_other [OF r] b1 by blast
    have "s2 = s1"
      unfolding s2_def using some no
      by (auto simp: clearOne_cases execUpdate_def updateDiscordAlert_def NullString_String_def
          Let_def split: option.splits)
    then have r2: "r \<in> set s2"
      using r1 by simp
    show ?thesis
      unfolding run'(2) p using processCleared_other [OF r2, of B2] b2 by simp
  qed
  show ?thesis
    using events upd kept unfolding payload by blast
qed

theorem cleared_incident_edited_once_witness:
  "pass2 exampleLib exampleEnv exampleCfg exampleStore =
     Some ([EditCall 2,
            Patch ''https://discord.example/hook/messages/555''
              \<lparr>Username = [], AvatarURL = [],
               Embeds =
                 [\<lparr>Title = checkMark @ '' Incident Cleared '' @ checkMark, Color = 3066993,
                   Fields =
                     [\<lparr>Name = ''Source'', Value = ''RWECC'', Inline = False\<rparr>,
                      \<lparr>Name = ''Address'', Value = ''100 Main St'', Inline = False\<rparr>],
                   Footer = ''Incident no longer in active feed'',
                   EmbedTimestamp = ''2024-05-01T12:00:00Z'',
                   Thumbnail = [], Image = []\<rparr>]\<rparr>],
           1,
           [activeRow, clearedRow\<lparr>Incident := (Incident clearedRow)\<lparr>DiscordMessageID := None\<rparr>\<rparr>]) \<and>
   clearedRow\<lparr>Incident := (Incident clearedRow)\<lparr>DiscordMessageID := None\<rparr>\<rparr>
     \<in> set (snd (snd (the (pass2 exampleLib exampleEnv exampleCfg exampleStore)))) \<and>
   snd (snd (the (pass2 exampleLib failedEditEnv exampleCfg exampleStore))) = exampleStore \<and>
   clearedRow \<in> set (snd (snd (the (pass2 exampleLib failedEditEnv exampleCfg exampleStore))))"
proof -
  have run: "pass2 exampleLib exampleEnv exampleCfg exampleStore =
     Some ([EditCall 2,
            Patch ''https://discord.example/hook/messages/555''
              \<lparr>Username = [], AvatarURL = [],
               Embeds =
                 [\<lparr>Title = checkMark @ '' Incident Cleared '' @ checkMark, Color = 3066993,
                   Fields =
                     [\<lparr>Name = ''Source'', Value = ''RWECC'', Inline = False\<rparr>,
                      \<lparr>Name = ''Address'', Value = ''100 Main St'', Inline = False\<rparr>],
                   Footer = ''Incident no longer in active feed'',
                   EmbedTimestamp = ''2024-05-01T12:00:00Z'',
                   Thumbnail = [], Image = []\<rparr>]\<rparr>],
           1,
           [activeRow, clearedRow\<lparr>Incident := (Incident clearedRow)\<lparr>DiscordMessageID := None\<rparr>\<rparr>])"
    by (simp add: pass2_def selectCleared_def exampleStore_def activeRow_def clearedRow_def
        scanCleared_def clearOne_def exampleEnv_def exampleCfg_def exampleLib_def
        exampleIncident_def execUpdate_def setMessageID_def updateDiscordAlert_def
        NullString_String_def zeroIncident_def clearedPayload_def)
  have d: "distinct (map (\<lambda>r. ID (Incident r)) exampleStore)"
    by (simp add: exampleStore_def activeRow_def clearedRow_def exampleIncident_def)
  have r: "clearedRow \<in> set exampleStore"
    by (simp add: exampleStore_def)
  have cl: "Status clearedRow = ''cleared''"
    by (simp add: clearedRow_def)
  have some: "DiscordMessageID (Incident clearedRow) = Some ''555''"
    by (simp add: clearedRow_def exampleIncident_def)
  have scan: "\<not> scanFails exampleEnv clearedRow"
    by (simp add: exampleEnv_def)
  have ok: "httpPatch exampleEnv u p = None" for u p
    by (simp add: exampleEnv_def)
  have ex: "\<not> execFails exampleEnv k None" for k
    by (simp add: exampleEnv_def)
  have run': "pass2 exampleLib failedEditEnv exampleCfg exampleStore =
     Some ([EditCall 2,
            Patch ''https://discord.example/hook/messages/555''
              \<lparr>Username = [], AvatarURL = [],
               Embeds =
                 [\<lparr>Title = checkMark @ '' Incident Cleared '' @ checkMark, Color = 3066993,
                   Fields =
                     [\<lparr>Name = ''Source'', Value = ''RWECC'', Inline = False\<rparr>,
                      \<lparr>Name = ''Address'', Value = ''100 Main St'', Inline = False\<rparr>],
                   Footer = ''Incident no longer in active feed'',
                   EmbedTimestamp = ''2024-05-01T12:00:00Z'',
                   Thumbnail = [], Image = []\<rparr>]\<rparr>],
           0, exampleStore)"
    by (simp add: pass2_def selectCleared_def exampleStore_def activeRow_def clearedRow_def
        scanCleared_def clearOne_def failedEditEnv_def exampleEnv_def exampleCfg_def exampleLib_def
        exampleIncident_def execUpdate_def setMessageID_def updateDiscordAlert_def
        NullString_String_def zeroIncident_def clearedPayload_def)
  have scan': "\<not> scanFails failedEditEnv clearedRow"
    by (simp add: failedEditEnv_def exampleEnv_def)
  have no: "httpPatch failedEditEnv u p \<noteq> None" for u p
    by (simp add: failedEditEnv_def)
  have kept: "clearedRow \<in> set (snd (snd (the (pass2 exampleLib failedEditEnv exampleCfg exampleStore))))"
    using cleared_incident_edited_once [OF d r cl some scan' run'] no run'
    by simp
  show ?thesis
    using cleared_incident_edited_once [OF d r cl some scan run] ok ex run run' kept
    by simp
qed

text \<open>
  C9. An incident whose source is none of the sources of its generation makes the send
  return the error "unknown incident source" without a post; the turn of the loop leaves
  the store (and, in the earlier generation, the sent ids) as they were and counts nothing,
  and the loop goes on with the next row.
\<close>

theorem unknown_source_is_an_error:
  "(Source i \<notin> {''NCDOT'', ''RWECC'', ''ArcGIS_Police''} \<longrightarrow>
      snd (sendDiscordAlert lib env url key i) = Inl (UnknownSource (Source i)) \<and>
      (\<forall>u p a. Post u p a \<notin> set (fst (sendDiscordAlert lib env url key i))) \<and>
      snd (notifyOne lib env cfg i store) = (0, store) \<and>
      processNew lib env cfg (Inr i # rows) store =
        (case processNew lib env cfg rows store of
           (evs', n', store') \<Rightarrow> (fst (notifyOne lib env cfg i store) @ evs', n', store'))) \<and>
   (Source i \<notin> {''NCDOT'', ''RWECC''} \<longrightarrow>
      sendDiscordAlert_early lib env url key i = ([], Inl (UnknownSource (Source i))) \<and>
      notifyOne_early lib env cfg i sent store =
        (False, if isSent sent (ID i) then [] else [NotifyCall (ID i)], 0, sent, store) \<and>
      processNew_early lib env cfg (Inr i # rows) sent store =
        (case processNew_early lib env cfg rows sent store of
           (panicked, evs', n', sent', store') \<Rightarrow>
             (panicked, (if isSent sent (ID i) then [] else [NotifyCall (ID i)]) @ evs', n', sent',
              store')))"
proof -
  have later: "snd (sendDiscordAlert lib env url key i) = Inl (UnknownSource (Source i)) \<and>
      (\<forall>u p a. Post u p a \<notin> set (fst (sendDiscordAlert lib env url key i))) \<and>
      snd (notifyOne lib env cfg i store) = (0, store) \<and>
      processNew lib env cfg (Inr i # rows) store =
        (case processNew lib env cfg rows store of
           (evs', n', store') \<Rightarrow> (fst (notifyOne lib env cfg i store) @ evs', n', store'))"
    if "Source i \<notin> {''NCDOT'', ''RWECC'', ''ArcGIS_Police''}"
  proof -
    have s: "Source i \<noteq> ''ArcGIS_Police''" "Source i \<noteq> ''NCDOT''" "Source i \<noteq> ''RWECC''"
      using that by auto
    have e: "snd (sendDiscordAlert lib env url key i) = Inl (UnknownSource (Source i))" for url key
      by (simp add: sendDiscordAlert_unknown [OF s])
    show ?thesis
      using e sendDiscordAlert_unknown_no_post [OF s] notifyOne_send_fails [OF e]
        processNew_send_fails [OF e]
      by simp
  qed
  have early: "sendDiscordAlert_early lib env url key i = ([], Inl (UnknownSource (Source i))) \<and>
      notifyOne_early lib env cfg i sent store =
        (False, if isSent sent (ID i) then [] else [NotifyCall (ID i)], 0, sent, store) \<and>
      processNew_early lib env cfg (Inr i # rows) sent store =
        (case processNew_early lib env cfg rows sent store of
           (panicked, evs', n', sent', store') \<Rightarrow>
             (panicked, (if isSent sent (ID i) then [] else [NotifyCall (ID i)]) @ evs', n', sent',
              store'))"
    if "Source i \<notin> {''NCDOT'', ''RWECC''}"
  proof -
    have s: "Source i \<noteq> ''NCDOT''" "Source i \<noteq> ''RWECC''"
      using that by auto
    have e: "sendDiscordAlert_early lib env url key i = ([], Inl (UnknownSource (Source i)))"
      for url key
      by (rule sendDiscordAlert_early_unknown [OF s])
    have n: "notifyOne_early lib env cfg i sent store =
        (False, if isSent sent (ID i) then [] else [NotifyCall (ID i)], 0, sent, store)"
      by (simp add: notifyOne_early_def e)
    show ?thesis
      using e n by (simp split: prod.splits)
  qed
  show ?thesis
    using later early by blast
qed

theorem unknown_source_is_an_error_witness:
  "Source (located (exampleIncident 9 ''Waze'' [])) \<notin> {''NCDOT'', ''RWECC'', ''ArcGIS_Police''} \<and>
   sendDiscordAlert exampleLib exampleEnv ''https://discord.example/hook'' []
       (located (exampleIncident 9 ''Waze'' [])) =
     ([CameraQuery 35.7796 (- 78.6382) 3,
       Capture 9 \<lparr>CameraName = ''I-40 at Exit 12'', ImageURL = ''https://cams.example/1.jpg''\<rparr>,
       AuditInsert 9 ''I-40 at Exit 12'' ''/tmp/incident_9_cam_20240501120000.jpg'',
       Remove ''/tmp/incident_9_cam_20240501120000.jpg''],
      Inl (UnknownSource ''Waze'')) \<and>
   snd (notifyOne exampleLib exampleEnv exampleCfg (located (exampleIncident 9 ''Waze'' []))
          exampleStore) = (0, exampleStore) \<and>
   sendDiscordAlert_early exampleLib exampleEnv ''https://discord.example/hook'' []
       (located (exampleIncident 9 ''Waze'' [])) = ([], Inl (UnknownSource ''Waze''))"
proof -
  have s: "Source (located (exampleIncident 9 ''Waze'' [])) \<notin> {''NCDOT'', ''RWECC'', ''ArcGIS_Police''}"
    "Source (located (exampleIncident 9 ''Waze'' [])) \<notin> {''NCDOT'', ''RWECC''}"
    "Source (located (exampleIncident 9 ''Waze'' [])) = ''Waze''"
    by (simp_all add: located_def exampleIncident_def)
  have events: "fst (sendDiscordAlert exampleLib exampleEnv ''https://discord.example/hook'' []
       (located (exampleIncident 9 ''Waze'' []))) =
     [CameraQuery 35.7796 (- 78.6382) 3,
       Capture 9 \<lparr>CameraName = ''I-40 at Exit 12'', ImageURL = ''https://cams.example/1.jpg''\<rparr>,
       AuditInsert 9 ''I-40 at Exit 12'' ''/tmp/incident_9_cam_20240501120000.jpg'',
       Remove ''/tmp/incident_9_cam_20240501120000.jpg'']"
    by (simp add: sendDiscordAlert_def nearbyCamerasOf_def attachmentOf_def located_def
        exampleIncident_def exampleEnv_def findNearbyCameras_def exampleCameras_def
        captureCameraImage_def captureFileName_def Itoa_def digitsOf.simps Let_def)
  show ?thesis
    using s events
      unknown_source_is_an_error [of "located (exampleIncident 9 ''Waze'' [])" exampleLib exampleEnv
        "''https://discord.example/hook''" "[]" exampleCfg exampleStore "[]" None]
    by (simp add: prod_eq_iff)
qed

lemma failed_send_row_stays:
  assumes d: "distinct (map (\<lambda>r. ID (Incident r)) store)"
    and r: "r \<in> set store"
    and act: "Status r = ''active''"
    and null: "DiscordMessageID (Incident r) = None"
    and fails: "snd (sendDiscordAlert lib env (webhookURL cfg) (mapsAPIKey cfg) (Incident r)) = Inl e"
    and run: "main lib env cfg store = (x, evs, store')"
  shows "r \<in> set store'"
proof (cases "webhookURL cfg = [] \<or> queryNewFails env")
  case True
  then have "store' = store"
    using run by (auto simp: main_def pass1_def split: if_splits)
  then show ?thesis using r by simp
next
  case False
  let ?k = "ID (Incident r)"
  let ?p = "processNew lib env cfg (map (scanNew env) (selectNew store)) store"
  obtain B1 B2 where b: "map (scanNew env) (selectNew store) = B1 @ scanNew env r # B2"
    and b1: "\<forall>i. Inr i \<in> set B1 \<longrightarrow> ID i \<noteq> ?k"
    and b2: "\<forall>i. Inr i \<in> set B2 \<longrightarrow> ID i \<noteq> ?k"
    using selected_batch [OF d r act null, of env] by auto
  define s1 where "s1 = snd (snd (processNew lib env cfg B1 store))"
  have r1: "r \<in> set s1"
    unfolding s1_def using processNew_other [OF r] b1 by blast
  have one: "snd (snd (processNew lib env cfg [scanNew env r] s1)) = s1"
  proof (cases "scanFails env r")
    case True
    then show ?thesis by (simp add: scanNew_def)
  next
    case False
    then have "scanNew env r = Inr (Incident r)"
      using null by (rule scanNew_selected)
    then show ?thesis
      using notifyOne_send_fails [OF fails, of s1] by (simp add: processNew_single)
  qed
  have r3: "r \<in> set (snd (snd ?p))"
    unfolding b processNew_middle Let_def snd_conv s1_def [symmetric] one
    using processNew_other [OF r1, of B2] b2 by simp
  have d3: "distinct (map (\<lambda>r. ID (Incident r)) (snd (snd ?p)))"
    using d by (simp add: processNew_ids)
  have "Status r \<noteq> ''cleared''"
    using act by simp
  then have "r \<in> set (snd (snd (processCleared lib env cfg
      (map (scanCleared env) (selectCleared (snd (snd ?p)))) (snd (snd ?p)))))"
    using pass2_keeps_row [OF d3 r3] by simp
  then show ?thesis
    using main_cases [of cfg env lib store x evs store'] False run r3 by auto
qed

text \<open>
  C3. When the send for an incident fails, its turn of the first loop counts nothing and
  leaves the store as it was (in the earlier generation also the sent ids), and the loop
  goes on with the rows after it: with notifications switched on, each of them gets its
  call of \<^verbatim>\<open>sendDiscordAlert\<close>. In the later generation the row of the incident, with status
  \<^verbatim>\<open>active\<close> and no message id, is in the store unchanged after the run, so the first query
  of the next run selects it again.
\<close>

theorem failed_send_changes_nothing:
  "(snd (sendDiscordAlert lib env (webhookURL cfg) (mapsAPIKey cfg) i) = Inl e \<longrightarrow>
      snd (notifyOne lib env cfg i store) = (0, store) \<and>
      processNew lib env cfg (Inr i # rows) store =
        (case processNew lib env cfg rows store of
           (evs', n', store') \<Rightarrow> (fst (notifyOne lib env cfg i store) @ evs', n', store')) \<and>
      (notifyDiscord cfg \<noteq> ''0'' \<longrightarrow>
         (\<forall>j. Inr j \<in> set rows \<longrightarrow>
            NotifyCall (ID j) \<in> set (fst (processNew lib env cfg (Inr i # rows) store))))) \<and>
   (distinct (map (\<lambda>r. ID (Incident r)) store) \<and> r \<in> set store \<and> Status r = ''active'' \<and>
    DiscordMessageID (Incident r) = None \<and>
    snd (sendDiscordAlert lib env (webhookURL cfg) (mapsAPIKey cfg) (Incident r)) = Inl e \<and>
    main lib env cfg store = (x, evs, store') \<longrightarrow>
      r \<in> set (selectNew store')) \<and>
   (snd (sendDiscordAlert_early lib env (webhookURL cfg) (mapsAPIKey cfg) i) = Inl e \<longrightarrow>
      notifyOne_early lib env cfg i sent store =
        (False, fst (snd (notifyOne_early lib env cfg i sent store)), 0, sent, store) \<and>
      processNew_early lib env cfg (Inr i # rows) sent store =
        (case processNew_early lib env cfg rows sent store of
           (panicked, evs', n', sent', store') \<Rightarrow>
             (panicked, fst (snd (notifyOne_early lib env cfg i sent store)) @ evs', n', sent',
              store')))"
proof -
  have loop: "snd (notifyOne lib env cfg i store) = (0, store) \<and>
      processNew lib env cfg (Inr i # rows) store =
        (case processNew lib env cfg rows store of
           (evs', n', store') \<Rightarrow> (fst (notifyOne lib env cfg i store) @ evs', n', store')) \<and>
      (notifyDiscord cfg \<noteq> ''0'' \<longrightarrow>
         (\<forall>j. Inr j \<in> set rows \<longrightarrow>
            NotifyCall (ID j) \<in> set (fst (processNew lib env cfg (Inr i # rows) store))))"
    if f: "snd (sendDiscordAlert lib env (webhookURL cfg) (mapsAPIKey cfg) i) = Inl e"
    using notifyOne_send_fails [OF f] processNew_send_fails [OF f]
      processNew_notifies [of cfg _ "Inr i # rows" lib env store]
    by simp
  have row: "r \<in> set (selectNew store')"
    if "distinct (map (\<lambda>r. ID (Incident r)) store)" "r \<in> set store" "Status r = ''active''"
      "DiscordMessageID (Incident r) = None"
      "snd (sendDiscordAlert lib env (webhookURL cfg) (mapsAPIKey cfg) (Incident r)) = Inl e"
      "main lib env cfg store = (x, evs, store')"
    using failed_send_row_stays [OF that] that(3,4) by (simp add: selectNew_def)
  have early: "notifyOne_early lib env cfg i sent store =
        (False, fst (snd (notifyOne_early lib env cfg i sent store)), 0, sent, store) \<and>
      processNew_early lib env cfg (Inr i # rows) sent store =
        (case processNew_early lib env cfg rows sent store of
           (panicked, evs', n', sent', store') \<Rightarrow>
             (panicked, fst (snd (notifyOne_early lib env cfg i sent store)) @ evs', n', sent',
              store'))"
    if f: "snd (sendDiscordAlert_early lib env (webhookURL cfg) (mapsAPIKey cfg) i) = Inl e"
    using notifyOne_early_send_fails [OF f] processNew_early_send_fails [OF f] by blast
  show ?thesis
    using loop row early by blast
qed

theorem failed_send_changes_nothing_witness:
  "snd (sendDiscordAlert exampleLib failingEnv (webhookURL exampleCfg) (mapsAPIKey exampleCfg)
          (Incident activeRow)) = Inl (Failure ''503 Service Unavailable'') \<and>
   snd (notifyOne exampleLib failingEnv exampleCfg (Incident activeRow) exampleStore)
     = (0, exampleStore) \<and>
   activeRow \<in> set (selectNew (snd (snd (main exampleLib failingEnv exampleCfg exampleStore)))) \<and>
   snd (sendDiscordAlert_early exampleLib failingEnv (webhookURL exampleCfg) (mapsAPIKey exampleCfg)
          (Incident activeRow)) = Inl (Failure ''503 Service Unavailable'') \<and>
   snd (snd (snd (notifyOne_early exampleLib failingEnv exampleCfg (Incident activeRow) None
          exampleStore))) = (None, exampleStore)"
proof -
  have f: "snd (sendDiscordAlert exampleLib failingEnv (webhookURL exampleCfg)
      (mapsAPIKey exampleCfg) (Incident activeRow)) = Inl (Failure ''503 Service Unavailable'')"
    by (simp add: sendDiscordAlert_def nearbyCamerasOf_def attachmentOf_def activeRow_def
        exampleIncident_def postMultipartToWebhook_def failingEnv_def exampleEnv_def)
  have u: "unmarshalStruct exampleLib setNcdotField ncdotText zeroNcdot = (zeroNcdot, False)"
    by (simp add: unmarshalStruct_def exampleLib_def exampleDocs_def ncdotText_def
        setNcdotField_def fieldFor_def upperASCII_def)
  have g: "snd (sendDiscordAlert_early exampleLib failingEnv (webhookURL exampleCfg)
      (mapsAPIKey exampleCfg) (Incident activeRow)) = Inl (Failure ''503 Service Unavailable'')"
    by (simp add: sendDiscordAlert_early_def sendNcdotAlert_def u nearbyCameraFields_def
        activeRow_def exampleIncident_def postToWebhook_def failingEnv_def exampleEnv_def)
  have d: "distinct (map (\<lambda>r. ID (Incident r)) exampleStore)"
    by (simp add: exampleStore_def activeRow_def clearedRow_def exampleIncident_def)
  have r: "activeRow \<in> set exampleStore"
    by (simp add: exampleStore_def)
  have act: "Status activeRow = ''active''"
    by (simp add: activeRow_def)
  have null: "DiscordMessageID (Incident activeRow) = None"
    by (simp add: activeRow_def exampleIncident_def)
  obtain x evs store' where run: "main exampleLib failingEnv exampleCfg exampleStore = (x, evs, store')"
    by (metis prod.collapse)
  have t: "(snd (sendDiscordAlert exampleLib failingEnv (webhookURL exampleCfg)
          (mapsAPIKey exampleCfg) (Incident activeRow)) = Inl (Failure ''503 Service Unavailable'') \<longrightarrow>
        snd (notifyOne exampleLib failingEnv exampleCfg (Incident activeRow) exampleStore)
          = (0, exampleStore)) \<and>
      (distinct (map (\<lambda>r. ID (Incident r)) exampleStore) \<and> activeRow \<in> set exampleStore \<and>
       Status activeRow = ''active'' \<and> DiscordMessageID (Incident activeRow) = None \<and>
       snd (sendDiscordAlert exampleLib failingEnv (webhookURL exampleCfg) (mapsAPIKey exampleCfg)
          (Incident activeRow)) = Inl (Failure ''503 Service Unavailable'') \<and>
       main exampleLib failingEnv exampleCfg exampleStore = (x, evs, store') \<longrightarrow>
         activeRow \<in> set (selectNew store')) \<and>
      (snd (sendDiscordAlert_early exampleLib failingEnv (webhookURL exampleCfg)
          (mapsAPIKey exampleCfg) (Incident activeRow)) = Inl (Failure ''503 Service Unavailable'') \<longrightarrow>
        notifyOne_early exampleLib failingEnv exampleCfg (Incident activeRow) None exampleStore =
          (False, fst (snd (notifyOne_early exampleLib failingEnv exampleCfg (Incident activeRow)
             None exampleStore)), 0, None, exampleStore))"
    using failed_send_changes_nothing [of exampleLib failingEnv exampleCfg "Incident activeRow"
        "Failure ''503 Service Unavailable''" exampleStore "[]" activeRow x evs store' None]
    by blast
  have e: "snd (snd (snd (notifyOne_early exampleLib failingEnv exampleCfg (Incident activeRow) None
          exampleStore))) = (None, exampleStore)"
    using t g by (metis snd_conv)
  show ?thesis
    using t f g d r act null run e by simp
qed

section \<open>Properties of the enrichment and of parse failures\<close>

lemma nearbyCamerasOf_located:
  "Latitude i = Some lat \<Longrightarrow> Longitude i = Some lon \<Longrightarrow>
   nearbyCamerasOf env i =
     ([CameraQuery lat lon 3],
      (case camerasByDistance env lat lon of Inl e \<Rightarrow> [] | Inr cameras \<Rightarrow> take 3 cameras))"
  by (simp add: nearbyCamerasOf_def findNearbyCameras_def split: sum.splits)

lemma nearbyCamerasOf_unlocated:
  "Latitude i = None \<or> Longitude i = None \<Longrightarrow> nearbyCamerasOf env i = ([], [])"
  by (auto simp: nearbyCamerasOf_def split: option.splits)

lemma attachmentOf_captured:
  "fetchImage env (ID i) c = Inr stamp \<Longrightarrow>
   attachmentOf env i (c # rest) =
     ([Capture (ID i) c,
       AuditInsert (ID i) (CameraName c)
         (tempFile env (captureFileName (ID i) stamp))],
      tempFile env (captureFileName (ID i) stamp), captureFileName (ID i) stamp)"
  by (simp add: attachmentOf_def captureCameraImage_def Let_def)

lemma sendDiscordAlert_known:
  assumes "Source i = ''NCDOT'' \<or> Source i = ''RWECC''"
  shows "sendDiscordAlert lib env url key i =
     (let cams = snd (nearbyCamerasOf env i);
          att = attachmentOf env i cams;
          payload =
            (if Source i = ''NCDOT'' then buildNcdotPayload lib key i cams (snd (snd att))
             else buildRweccPayload lib key i cams (snd (snd att)));
          post = postMultipartToWebhook env url payload (fst (snd att))
      in (fst (nearbyCamerasOf env i) @ fst att @ fst post
            @ (if fst (snd att) \<noteq> [] then [Remove (fst (snd att))] else []),
          snd post))"
  using assms by (auto simp: sendDiscordAlert_def Let_def case_prod_beta)

lemma otherCameraFields_filter:
  "filter (\<lambda>f. Name f = ''Other Live Cameras'') (otherCameraFields cams) = otherCameraFields cams"
  by (simp add: otherCameraFields_def)

lemma weatherFields_filter:
  "filter (\<lambda>f. Name f = ''Other Live Cameras'') (weatherFields w) = []"
  by (simp add: weatherFields_def split: option.splits)

lemma buildNcdotPayload_cameras:
  "filter (\<lambda>f. Name f = ''Other Live Cameras'')
     (Fields (hd (Embeds (buildNcdotPayload lib key i cams name)))) = otherCameraFields cams \<and>
   Image (hd (Embeds (buildNcdotPayload lib key i cams name))) = attachmentImage name"
  by (simp add: buildNcdotPayload_def Let_def case_prod_beta otherCameraFields_filter
      weatherFields_filter)

lemma buildRweccPayload_cameras:
  "filter (\<lambda>f. Name f = ''Other Live Cameras'')
     (Fields (hd (Embeds (buildRweccPayload lib key i cams name)))) = otherCameraFields cams \<and>
   Image (hd (Embeds (buildRweccPayload lib key i cams name))) = attachmentImage name"
  by (simp add: buildRweccPayload_def Let_def case_prod_beta otherCameraFields_filter
      weatherFields_filter)

lemma buildArcGisPayload_cameras:
  "filter (\<lambda>f. Name f = ''Other Live Cameras'')
     (Fields (hd (Embeds (buildArcGisPayload lib key i)))) = []"
  by (simp add: buildArcGisPayload_def Let_def)


lemma attachmentOf_failed:
  "fetchImage env (ID i) c = Inl e \<Longrightarrow>
   attachmentOf env i (c # rest) = ([Capture (ID i) c], [], [])"
  by (simp add: attachmentOf_def captureCameraImage_def)

lemma no_CameraQuery_attachmentOf:
  "filter (\<lambda>e. \<exists>a b n. e = CameraQuery a b n) (fst (attachmentOf env i cams)) = []"
  by (auto simp: filter_empty_conv dest: attachmentOf_events)

lemma no_CameraQuery_post:
  "filter (\<lambda>e. \<exists>a b n. e = CameraQuery a b n) (fst (postMultipartToWebhook env url p a)) = []"
  by (auto simp: filter_empty_conv dest: postMultipartToWebhook_events)

lemma CameraQuery_sendDiscordAlert:
  assumes "Source i \<noteq> ''ArcGIS_Police''"
  shows "filter (\<lambda>e. \<exists>a b n. e = CameraQuery a b n) (fst (sendDiscordAlert lib env url key i)) =
     filter (\<lambda>e. \<exists>a b n. e = CameraQuery a b n) (fst (nearbyCamerasOf env i))"
proof (cases "Source i = ''NCDOT'' \<or> Source i = ''RWECC''")
  case True
  show ?thesis
    unfolding sendDiscordAlert_known [OF True]
    by (simp add: Let_def no_CameraQuery_attachmentOf no_CameraQuery_post)
next
  case False
  then have s: "Source i \<noteq> ''ArcGIS_Police''" "Source i \<noteq> ''NCDOT''" "Source i \<noteq> ''RWECC''"
    using assms by auto
  show ?thesis
    unfolding sendDiscordAlert_unknown [OF s]
    by (simp add: no_CameraQuery_attachmentOf)
qed

text \<open>
  C8. In the later generation, for every source but \<^verbatim>\<open>ArcGIS_Police\<close> and an incident with
  both coordinates, the send asks the camera directory once, for 3 cameras at the
  coordinates of the incident, and works with the first 3 of the directory's order. For an
  NCDOT or RWECC incident the first of them is captured; when the capture succeeds its file
  is the attachment of the post and the image of the embed (when it fails, the post has no
  attachment and the embed no image), and the cameras after the first are the links of one
  field "Other Live Cameras", which is absent when there is no second camera. Without
  cameras, or when a coordinate is absent, nothing is captured and
  the payload has neither the field nor an image. An \<^verbatim>\<open>ArcGIS_Police\<close> incident asks for no
  camera, captures none, and its payload has no camera field and no attachment. The
  enrichment of the earlier generation asks for 3 cameras as well and lists all of them.
\<close>

theorem camera_enrichment:
  "(Source i \<noteq> ''ArcGIS_Police'' \<and> Latitude i = Some lat \<and> Longitude i = Some lon \<longrightarrow>
      filter (\<lambda>e. \<exists>a b n. e = CameraQuery a b n) (fst (sendDiscordAlert lib env url key i)) =
        [CameraQuery lat lon 3] \<and>
      snd (nearbyCamerasOf env i) =
        (case camerasByDistance env lat lon of Inl e \<Rightarrow> [] | Inr cameras \<Rightarrow> take 3 cameras)) \<and>
   ((Source i = ''NCDOT'' \<or> Source i = ''RWECC'') \<and> snd (nearbyCamerasOf env i) = c # rest \<and>
    fetchImage env (ID i) c = Inr stamp \<longrightarrow>
      (let name = captureFileName (ID i) stamp;
           path = tempFile env name;
           payload =
             (if Source i = ''NCDOT'' then buildNcdotPayload lib key i (c # rest) name
              else buildRweccPayload lib key i (c # rest) name);
           post = postMultipartToWebhook env url payload path
       in sendDiscordAlert lib env url key i =
            (fst (nearbyCamerasOf env i)
               @ [Capture (ID i) c, AuditInsert (ID i) (CameraName c) path] @ fst post
               @ (if path \<noteq> [] then [Remove path] else []),
             snd post) \<and>
          Image (hd (Embeds payload)) = ''attachment://'' @ name \<and>
          filter (\<lambda>f. Name f = ''Other Live Cameras'') (Fields (hd (Embeds payload))) =
            (if rest = [] then []
             else [\<lparr>Name = ''Other Live Cameras'', Value = Join (map cameraLink rest) newline,
                    Inline = False\<rparr>]))) \<and>
   ((Source i = ''NCDOT'' \<or> Source i = ''RWECC'') \<and> snd (nearbyCamerasOf env i) = c # rest \<and>
    fetchImage env (ID i) c = Inl failure \<longrightarrow>
      (let payload =
             (if Source i = ''NCDOT'' then buildNcdotPayload lib key i (c # rest) []
              else buildRweccPayload lib key i (c # rest) []);
           post = postMultipartToWebhook env url payload []
       in sendDiscordAlert lib env url key i =
            (fst (nearbyCamerasOf env i) @ [Capture (ID i) c] @ fst post, snd post) \<and>
          Image (hd (Embeds payload)) = [])) \<and>
   ((Source i = ''NCDOT'' \<or> Source i = ''RWECC'') \<and> snd (nearbyCamerasOf env i) = [] \<longrightarrow>
      (let payload =
             (if Source i = ''NCDOT'' then buildNcdotPayload lib key i [] []
              else buildRweccPayload lib key i [] []);
           post = postMultipartToWebhook env url payload []
       in sendDiscordAlert lib env url key i = (fst (nearbyCamerasOf env i) @ fst post, snd post) \<and>
          Image (hd (Embeds payload)) = [] \<and>
          filter (\<lambda>f. Name f = ''Other Live Cameras'') (Fields (hd (Embeds payload))) = [])) \<and>
   (Latitude i = None \<or> Longitude i = None \<longrightarrow> nearbyCamerasOf env i = ([], [])) \<and>
   (Latitude i = Some lat \<and> Longitude i = Some lon \<and> camerasByDistance env lat lon = Inr [] \<longrightarrow>
      snd (nearbyCamerasOf env i) = []) \<and>
   (Source i = ''ArcGIS_Police'' \<longrightarrow>
      sendDiscordAlert lib env url key i =
        postMultipartToWebhook env url (buildArcGisPayload lib key i) [] \<and>
      filter (\<lambda>e. (\<exists>a b n. e = CameraQuery a b n) \<or> (\<exists>n c. e = Capture n c))
        (fst (sendDiscordAlert lib env url key i)) = [] \<and>
      filter (\<lambda>f. Name f = ''Other Live Cameras'')
        (Fields (hd (Embeds (buildArcGisPayload lib key i)))) = []) \<and>
   (Latitude i = Some lat \<and> Longitude i = Some lon \<longrightarrow>
      nearbyCameraFields env i =
        ([CameraQuery lat lon 3],
         (case camerasByDistance env lat lon of
            Inl e \<Rightarrow> []
          | Inr cameras \<Rightarrow>
              if take 3 cameras = [] then []
              else [\<lparr>Name = ''Nearby Cameras'',
                     Value = Join (map cameraLink (take 3 cameras)) newline, Inline = False\<rparr>])))"
proof -
  have request: "filter (\<lambda>e. \<exists>a b n. e = CameraQuery a b n) (fst (sendDiscordAlert lib env url key i)) =
        [CameraQuery lat lon 3] \<and>
      snd (nearbyCamerasOf env i) =
        (case camerasByDistance env lat lon of Inl e \<Rightarrow> [] | Inr cameras \<Rightarrow> take 3 cameras)"
    if "Source i \<noteq> ''ArcGIS_Police''" "Latitude i = Some lat" "Longitude i = Some lon"
    using that by (simp add: CameraQuery_sendDiscordAlert nearbyCamerasOf_located)
  have captured: "(let name = captureFileName (ID i) stamp;
           path = tempFile env name;
           payload =
             (if Source i = ''NCDOT'' then buildNcdotPayload lib key i (c # rest) name
              else buildRweccPayload lib key i (c # rest) name);
           post = postMultipartToWebhook env url payload path
       in sendDiscordAlert lib env url key i =
            (fst (nearbyCamerasOf env i)
               @ [Capture (ID i) c, AuditInsert (ID i) (CameraName c) path] @ fst post
               @ (if path \<noteq> [] then [Remove path] else []),
             snd post) \<and>
          Image (hd (Embeds payload)) = ''attachment://'' @ name \<and>
          filter (\<lambda>f. Name f = ''Other Live Cameras'') (Fields (hd (Embeds payload))) =
            (if rest = [] then []
             else [\<lparr>Name = ''Other Live Cameras'', Value = Join (map cameraLink rest) newline,
                    Inline = False\<rparr>]))"
    if k: "Source i = ''NCDOT'' \<or> Source i = ''RWECC''"
      and cams: "snd (nearbyCamerasOf env i) = c # rest"
      and img: "fetchImage env (ID i) c = Inr stamp"
  proof -
    have name: "captureFileName (ID i) stamp \<noteq> []"
      by (simp add: captureFileName_def)
    show ?thesis
      using name
      by (simp add: sendDiscordAlert_known [OF k] cams attachmentOf_captured [OF img] Let_def
          buildNcdotPayload_cameras buildRweccPayload_cameras attachmentImage_def
          otherCameraFields_def)
  qed
  have failed: "(let payload =
             (if Source i = ''NCDOT'' then buildNcdotPayload lib key i (c # rest) []
              else buildRweccPayload lib key i (c # rest) []);
           post = postMultipartToWebhook env url payload []
       in sendDiscordAlert lib env url key i =
            (fst (nearbyCamerasOf env i) @ [Capture (ID i) c] @ fst post, snd post) \<and>
          Image (hd (Embeds payload)) = [])"
    if k: "Source i = ''NCDOT'' \<or> Source i = ''RWECC''"
      and cams: "snd (nearbyCamerasOf env i) = c # rest"
      and img: "fetchImage env (ID i) c = Inl failure"
    by (simp add: sendDiscordAlert_known [OF k] cams attachmentOf_failed [OF img] Let_def
        buildNcdotPayload_cameras buildRweccPayload_cameras attachmentImage_def)
  have none: "(let payload =
             (if Source i = ''NCDOT'' then buildNcdotPayload lib key i [] []
              else buildRweccPayload lib key i [] []);
           post = postMultipartToWebhook env url payload []
       in sendDiscordAlert lib env url key i = (fst (nearbyCamerasOf env i) @ fst post, snd post) \<and>
          Image (hd (Embeds payload)) = [] \<and>
          filter (\<lambda>f. Name f = ''Other Live Cameras'') (Fields (hd (Embeds payload))) = [])"
    if k: "Source i = ''NCDOT'' \<or> Source i = ''RWECC''"
      and cams: "snd (nearbyCamerasOf env i) = []"
    by (simp add: sendDiscordAlert_known [OF k] cams Let_def attachmentOf_def
        buildNcdotPayload_cameras buildRweccPayload_cameras attachmentImage_def
        otherCameraFields_def)
  have absent: "nearbyCamerasOf env i = ([], [])" if "Latitude i = None \<or> Longitude i = None"
    using that by (rule nearbyCamerasOf_unlocated)
  have empty: "snd (nearbyCamerasOf env i) = []"
    if "Latitude i = Some lat" "Longitude i = Some lon" "camerasByDistance env lat lon = Inr []"
    using that by (simp add: nearbyCamerasOf_located)
  have arcgis: "sendDiscordAlert lib env url key i =
        postMultipartToWebhook env url (buildArcGisPayload lib key i) [] \<and>
      filter (\<lambda>e. (\<exists>a b n. e = CameraQuery a b n) \<or> (\<exists>n c. e = Capture n c))
        (fst (sendDiscordAlert lib env url key i)) = [] \<and>
      filter (\<lambda>f. Name f = ''Other Live Cameras'')
        (Fields (hd (Embeds (buildArcGisPayload lib key i)))) = []"
    if a: "Source i = ''ArcGIS_Police''"
    unfolding sendDiscordAlert_ArcGis [OF a]
    by (auto simp: filter_empty_conv buildArcGisPayload_cameras dest: postMultipartToWebhook_events)
  have early: "nearbyCameraFields env i =
        ([CameraQuery lat lon 3],
         (case camerasByDistance env lat lon of
            Inl e \<Rightarrow> []
          | Inr cameras \<Rightarrow>
              if take 3 cameras = [] then []
              else [\<lparr>Name = ''Nearby Cameras'',
                     Value = Join (map cameraLink (take 3 cameras)) newline, Inline = False\<rparr>]))"
    if "Latitude i = Some lat" "Longitude i = Some lon"
    using that by (simp add: nearbyCameraFields_def findNearbyCameras_def split: sum.splits)
  show ?thesis
    using request captured failed none absent empty arcgis early by blast
qed

theorem camera_enrichment_witness:
  "snd (nearbyCamerasOf exampleEnv (located (exampleIncident 1 ''NCDOT'' ncdotText))) =
     take 3 exampleCameras \<and>
   sendDiscordAlert exampleLib exampleEnv ''https://discord.example/hook'' []
       (located (exampleIncident 1 ''NCDOT'' ncdotText)) =
     ([CameraQuery 35.7796 (- 78.6382) 3,
       Capture 1 \<lparr>CameraName = ''I-40 at Exit 12'', ImageURL = ''https://cams.example/1.jpg''\<rparr>,
       AuditInsert 1 ''I-40 at Exit 12'' ''/tmp/incident_1_cam_20240501120000.jpg'',
       Post ''https://discord.example/hook?wait=true''
         (buildNcdotPayload exampleLib [] (located (exampleIncident 1 ''NCDOT'' ncdotText))
            (take 3 exampleCameras) ''incident_1_cam_20240501120000.jpg'')
         ''/tmp/incident_1_cam_20240501120000.jpg'',
       Remove ''/tmp/incident_1_cam_20240501120000.jpg''],
      Inr ''1234567890'') \<and>
   Image (hd (Embeds (buildNcdotPayload exampleLib [] (located (exampleIncident 1 ''NCDOT'' ncdotText))
       (take 3 exampleCameras) ''incident_1_cam_20240501120000.jpg''))) =
     ''attachment://incident_1_cam_20240501120000.jpg'' \<and>
   filter (\<lambda>f. Name f = ''Other Live Cameras'')
       (Fields (hd (Embeds (buildNcdotPayload exampleLib []
          (located (exampleIncident 1 ''NCDOT'' ncdotText)) (take 3 exampleCameras)
          ''incident_1_cam_20240501120000.jpg'')))) =
     [\<lparr>Name = ''Other Live Cameras'',
       Value = ''[I-40 at Exit 13](https://cams.example/2.jpg)'' @ newline
         @ ''[US-1 North](https://cams.example/3.jpg)'',
       Inline = False\<rparr>] \<and>
   sendDiscordAlert exampleLib failedCaptureEnv ''https://discord.example/hook'' []
       (located (exampleIncident 1 ''NCDOT'' ncdotText)) =
     ([CameraQuery 35.7796 (- 78.6382) 3,
       Capture 1 \<lparr>CameraName = ''I-40 at Exit 12'', ImageURL = ''https://cams.example/1.jpg''\<rparr>,
       Post ''https://discord.example/hook?wait=true''
         (buildNcdotPayload exampleLib [] (located (exampleIncident 1 ''NCDOT'' ncdotText))
            (take 3 exampleCameras) [])
         []],
      Inr ''1234567890'') \<and>
   Image (hd (Embeds (buildNcdotPayload exampleLib [] (located (exampleIncident 1 ''NCDOT'' ncdotText))
       (take 3 exampleCameras) []))) = [] \<and>
   nearbyCamerasOf exampleEnv (exampleIncident 1 ''NCDOT'' ncdotText) = ([], []) \<and>
   snd (nearbyCamerasOf noCameraEnv (located (exampleIncident 1 ''NCDOT'' ncdotText))) = [] \<and>
   sendDiscordAlert exampleLib exampleEnv ''https://discord.example/hook'' []
       (located (exampleIncident 4 ''ArcGIS_Police'' arcGisNoCaseText)) =
     ([Post ''https://discord.example/hook?wait=true''
         (buildArcGisPayload exampleLib [] (located (exampleIncident 4 ''ArcGIS_Police'' arcGisNoCaseText)))
         []],
      Inr ''1234567890'') \<and>
   nearbyCameraFields exampleEnv (located (exampleIncident 1 ''NCDOT'' ncdotText)) =
     ([CameraQuery 35.7796 (- 78.6382) 3],
      [\<lparr>Name = ''Nearby Cameras'',
        Value = ''[I-40 at Exit 12](https://cams.example/1.jpg)'' @ newline
          @ ''[I-40 at Exit 13](https://cams.example/2.jpg)'' @ newline
          @ ''[US-1 North](https://cams.example/3.jpg)'',
        Inline = False\<rparr>])"
proof -
  let ?i = "located (exampleIncident 1 ''NCDOT'' ncdotText)"
  let ?c = "\<lparr>CameraName = ''I-40 at Exit 12'', ImageURL = ''https://cams.example/1.jpg''\<rparr>"
  let ?rest = "[\<lparr>CameraName = ''I-40 at Exit 13'', ImageURL = ''https://cams.example/2.jpg''\<rparr>,
      \<lparr>CameraName = ''US-1 North'', ImageURL = ''https://cams.example/3.jpg''\<rparr>]"
  have src: "Source ?i = ''NCDOT''" "ID ?i = 1"
    "Latitude ?i = Some 35.7796" "Longitude ?i = Some (- 78.6382)"
    by (simp_all add: located_def exampleIncident_def)
  have t3: "take 3 exampleCameras = ?c # ?rest"
    by (simp add: exampleCameras_def)
  have cams: "snd (nearbyCamerasOf exampleEnv ?i) = ?c # ?rest"
    by (simp add: nearbyCamerasOf_located [OF src(3,4)] exampleEnv_def t3)
  have img: "fetchImage exampleEnv (ID ?i) ?c = Inr ''20240501120000''"
    by (simp add: exampleEnv_def)
  have name: "captureFileName 1 ''20240501120000'' = ''incident_1_cam_20240501120000.jpg''"
    by (simp add: captureFileName_def Itoa_def digitsOf.simps)
  have tmp: "tempFile exampleEnv n = ''/tmp/'' @ n" for n
    by (simp add: exampleEnv_def)
  have post: "postMultipartToWebhook exampleEnv u p a = ([Post (u @ ''?wait=true'') p a], Inr ''1234567890'')"
    for u p a
    by (simp add: postMultipartToWebhook_def exampleEnv_def)
  have q: "fst (nearbyCamerasOf exampleEnv ?i) = [CameraQuery 35.7796 (- 78.6382) 3]"
    by (simp add: nearbyCamerasOf_located [OF src(3,4)])
  have none: "nearbyCamerasOf exampleEnv (exampleIncident 1 ''NCDOT'' ncdotText) = ([], [])"
    using camera_enrichment [of "exampleIncident 1 ''NCDOT'' ncdotText" _ _ exampleLib exampleEnv]
    by (simp add: exampleIncident_def)
  have arc: "sendDiscordAlert exampleLib exampleEnv ''https://discord.example/hook'' []
       (located (exampleIncident 4 ''ArcGIS_Police'' arcGisNoCaseText)) =
     ([Post ''https://discord.example/hook?wait=true''
         (buildArcGisPayload exampleLib [] (located (exampleIncident 4 ''ArcGIS_Police'' arcGisNoCaseText)))
         []],
      Inr ''1234567890'')"
    using camera_enrichment [of "located (exampleIncident 4 ''ArcGIS_Police'' arcGisNoCaseText)" _ _
        exampleLib exampleEnv "''https://discord.example/hook''" "[]"]
    by (simp add: located_def exampleIncident_def post)
  have main: "(let name = captureFileName (ID ?i) ''20240501120000'';
           path = tempFile exampleEnv name;
           payload =
             (if Source ?i = ''NCDOT'' then buildNcdotPayload exampleLib [] ?i (?c # ?rest) name
              else buildRweccPayload exampleLib [] ?i (?c # ?rest) name);
           post = postMultipartToWebhook exampleEnv ''https://discord.example/hook'' payload path
       in sendDiscordAlert exampleLib exampleEnv ''https://discord.example/hook'' [] ?i =
            (fst (nearbyCamerasOf exampleEnv ?i)
               @ [Capture (ID ?i) ?c, AuditInsert (ID ?i) (CameraName ?c) path] @ fst post
               @ (if path \<noteq> [] then [Remove path] else []),
             snd post) \<and>
          Image (hd (Embeds payload)) = ''attachment://'' @ name \<and>
          filter (\<lambda>f. Name f = ''Other Live Cameras'') (Fields (hd (Embeds payload))) =
            (if ?rest = [] then []
             else [\<lparr>Name = ''Other Live Cameras'', Value = Join (map cameraLink ?rest) newline,
                    Inline = False\<rparr>]))"
    using camera_enrichment [of ?i _ _ exampleLib exampleEnv "''https://discord.example/hook''" "[]"
        ?c ?rest "''20240501120000''"] src(1) cams img
    by blast
  have empty: "snd (nearbyCamerasOf noCameraEnv ?i) = []"
    using camera_enrichment [of ?i "35.7796" "- 78.6382" exampleLib noCameraEnv] src(3,4)
    by (simp add: noCameraEnv_def)
  have cams': "snd (nearbyCamerasOf failedCaptureEnv ?i) = ?c # ?rest"
    by (simp add: nearbyCamerasOf_located [OF src(3,4)] failedCaptureEnv_def exampleEnv_def t3)
  have img': "fetchImage failedCaptureEnv (ID ?i) ?c = Inl (Failure ''bad status: 404 Not Found'')"
    by (simp add: failedCaptureEnv_def)
  have post': "postMultipartToWebhook failedCaptureEnv u p a =
      ([Post (u @ ''?wait=true'') p a], Inr ''1234567890'')" for u p a
    by (simp add: postMultipartToWebhook_def failedCaptureEnv_def exampleEnv_def)
  have q': "fst (nearbyCamerasOf failedCaptureEnv ?i) = [CameraQuery 35.7796 (- 78.6382) 3]"
    by (simp add: nearbyCamerasOf_located [OF src(3,4)])
  have failed: "(let payload =
             (if Source ?i = ''NCDOT'' then buildNcdotPayload exampleLib [] ?i (?c # ?rest) []
              else buildRweccPayload exampleLib [] ?i (?c # ?rest) []);
           post = postMultipartToWebhook failedCaptureEnv ''https://discord.example/hook'' payload []
       in sendDiscordAlert exampleLib failedCaptureEnv ''https://discord.example/hook'' [] ?i =
            (fst (nearbyCamerasOf failedCaptureEnv ?i) @ [Capture (ID ?i) ?c] @ fst post, snd post) \<and>
          Image (hd (Embeds payload)) = [])"
    using camera_enrichment [of ?i _ _ exampleLib failedCaptureEnv "''https://discord.example/hook''" "[]"
        ?c ?rest _ "Failure ''bad status: 404 Not Found''"] src(1) cams' img'
    by blast
  have early: "nearbyCameraFields exampleEnv ?i =
     ([CameraQuery 35.7796 (- 78.6382) 3],
      [\<lparr>Name = ''Nearby Cameras'',
        Value = ''[I-40 at Exit 12](https://cams.example/1.jpg)'' @ newline
          @ ''[I-40 at Exit 13](https://cams.example/2.jpg)'' @ newline
          @ ''[US-1 North](https://cams.example/3.jpg)'',
        Inline = False\<rparr>])"
    using camera_enrichment [of ?i "35.7796" "- 78.6382" exampleLib exampleEnv] src(3,4)
    by (simp add: exampleEnv_def exampleCameras_def cameraLink_def)
  show ?thesis
    using main failed none arc cams empty early
    unfolding t3 src name Let_def tmp post post' q q'
    by (simp add: cameraLink_def)
qed

lemma postMultipartToWebhook_result:
  "\<not> openFails env a \<Longrightarrow>
   snd (postMultipartToWebhook env url p a) = httpPost env (url @ ''?wait=true'') p a"
  by (simp add: postMultipartToWebhook_def)

text \<open>
  C6, as amended. In the later generation a details document that does not parse leaves
  the fields of the source at their zero values, and the send of an incident of a known
  source fails only with the post: with a webhook that accepts every post and attachments
  that open, \<^verbatim>\<open>sendDiscordAlert\<close> returns an error exactly for the unknown sources, whatever
  the details bytes are. In the earlier generation \<^verbatim>\<open>sendNcdotAlert\<close> and \<^verbatim>\<open>sendRweccAlert\<close>
  return the error of \<^verbatim>\<open>json.Unmarshal\<close>, so bytes that are no JSON make the send fail
  before anything is posted.
\<close>

theorem details_parse_failure_degrades:
  "(unmarshalMap lib (Details i) = None \<longrightarrow>
      parseNcdot lib (Details i) = (zeroNcdot, None) \<and>
      parseRwecc lib (Details i) = (zeroRwecc, None) \<and>
      parseArcGis lib (Details i) = zeroArcGis) \<and>
   ((\<forall>u p a. \<not> isl (httpPost env u p a)) \<and> (\<forall>a. \<not> openFails env a) \<longrightarrow>
      isl (snd (sendDiscordAlert lib env url key i)) =
        (Source i \<notin> {''NCDOT'', ''RWECC'', ''ArcGIS_Police''})) \<and>
   (Source i = ''NCDOT'' \<and> snd (unmarshalStruct lib setNcdotField (Details i) zeroNcdot) \<longrightarrow>
      sendDiscordAlert_early lib env url key i = ([], Inl (UnmarshalDetails ''NCDOT''))) \<and>
   (Source i = ''RWECC'' \<and> snd (unmarshalStruct lib setRweccField (Details i) zeroRwecc) \<longrightarrow>
      sendDiscordAlert_early lib env url key i = ([], Inl (UnmarshalDetails ''RWECC''))) \<and>
   (jsonScan lib (Details i) = None \<longrightarrow>
      snd (unmarshalStruct lib setNcdotField (Details i) zeroNcdot) \<and>
      snd (unmarshalStruct lib setRweccField (Details i) zeroRwecc))"
proof -
  have zero: "parseNcdot lib (Details i) = (zeroNcdot, None) \<and>
      parseRwecc lib (Details i) = (zeroRwecc, None) \<and>
      parseArcGis lib (Details i) = zeroArcGis"
    if "unmarshalMap lib (Details i) = None"
    using that
    by (simp add: parseNcdot_def parseRwecc_def parseArcGis_def fallback_stores_nothing [OF that])
  have later: "isl (snd (sendDiscordAlert lib env url key i)) =
        (Source i \<notin> {''NCDOT'', ''RWECC'', ''ArcGIS_Police''})"
    if post: "\<forall>u p a. \<not> isl (httpPost env u p a)" and "open": "\<forall>a. \<not> openFails env a"
  proof -
    have ok: "\<not> isl (snd (postMultipartToWebhook env url p a))" for p a
      using post "open" by (simp add: postMultipartToWebhook_result)
    consider "Source i = ''ArcGIS_Police''" | "Source i = ''NCDOT'' \<or> Source i = ''RWECC''"
      | "Source i \<noteq> ''ArcGIS_Police''" "Source i \<noteq> ''NCDOT''" "Source i \<noteq> ''RWECC''"
      by blast
    then show ?thesis
    proof cases
      case 1
      then show ?thesis
        using ok by (simp add: sendDiscordAlert_ArcGis)
    next
      case 2
      then show ?thesis
        using ok by (auto simp: sendDiscordAlert_known Let_def)
    next
      case 3
      then show ?thesis
        by (simp add: sendDiscordAlert_unknown)
    qed
  qed
  have ncdot: "sendDiscordAlert_early lib env url key i = ([], Inl (UnmarshalDetails ''NCDOT''))"
    if "Source i = ''NCDOT''" "snd (unmarshalStruct lib setNcdotField (Details i) zeroNcdot)"
    using that
    by (cases "unmarshalStruct lib setNcdotField (Details i) zeroNcdot")
      (simp add: sendDiscordAlert_early_def sendNcdotAlert_def)
  have rwecc: "sendDiscordAlert_early lib env url key i = ([], Inl (UnmarshalDetails ''RWECC''))"
    if "Source i = ''RWECC''" "snd (unmarshalStruct lib setRweccField (Details i) zeroRwecc)"
    using that
    by (cases "unmarshalStruct lib setRweccField (Details i) zeroRwecc")
      (simp add: sendDiscordAlert_early_def sendRweccAlert_def)
  have nojson: "snd (unmarshalStruct lib setNcdotField (Details i) zeroNcdot) \<and>
      snd (unmarshalStruct lib setRweccField (Details i) zeroRwecc)"
    if "jsonScan lib (Details i) = None"
    using that by (simp add: unmarshalStruct_def)
  show ?thesis
    using zero later ncdot rwecc nojson by blast
qed

theorem details_parse_failure_early_counterexample:
  "Source (exampleIncident 6 ''NCDOT'' ''not json'') = ''NCDOT'' \<and>
   jsonScan exampleLib (Details (exampleIncident 6 ''NCDOT'' ''not json'')) = None \<and>
   httpPost exampleEnv = (\<lambda>u p a. Inr ''1234567890'') \<and>
   sendDiscordAlert_early exampleLib exampleEnv ''https://discord.example/hook'' []
     (exampleIncident 6 ''NCDOT'' ''not json'') = ([], Inl (UnmarshalDetails ''NCDOT''))"
  by (simp add: sendDiscordAlert_early_def sendNcdotAlert_def unmarshalStruct_def exampleLib_def
      exampleDocs_def exampleIncident_def exampleEnv_def ncdotText_def rweccLegacyText_def
      arcGisNoCaseText_def arcGisCaseText_def)

theorem details_parse_failure_degrades_witness:
  "unmarshalMap exampleLib (Details (exampleIncident 6 ''NCDOT'' ''not json'')) = None \<and>
   parseNcdot exampleLib (Details (exampleIncident 6 ''NCDOT'' ''not json'')) = (zeroNcdot, None) \<and>
   \<not> isl (snd (sendDiscordAlert exampleLib exampleEnv ''https://discord.example/hook'' []
       (exampleIncident 6 ''NCDOT'' ''not json''))) \<and>
   isl (snd (sendDiscordAlert exampleLib exampleEnv ''https://discord.example/hook'' []
       (exampleIncident 9 ''Waze'' ''not json''))) \<and>
   sendDiscordAlert_early exampleLib exampleEnv ''https://discord.example/hook'' []
     (exampleIncident 6 ''NCDOT'' ''not json'') = ([], Inl (UnmarshalDetails ''NCDOT'')) \<and>
   sendDiscordAlert_early exampleLib exampleEnv ''https://discord.example/hook'' []
     (exampleIncident 7 ''RWECC'' ''not json'') = ([], Inl (UnmarshalDetails ''RWECC''))"
proof -
  have n: "jsonScan exampleLib (Details (exampleIncident 6 ''NCDOT'' ''not json'')) = None"
    by (simp add: exampleLib_def exampleDocs_def exampleIncident_def ncdotText_def
        rweccLegacyText_def arcGisNoCaseText_def arcGisCaseText_def)
  have m: "unmarshalMap exampleLib (Details (exampleIncident 6 ''NCDOT'' ''not json'')) = None"
    using n by (simp add: unmarshalMap_def)
  have post: "\<forall>u p a. \<not> isl (httpPost exampleEnv u p a)"
    by (simp add: exampleEnv_def)
  have "open": "\<forall>a. \<not> openFails exampleEnv a"
    by (simp add: exampleEnv_def)
  have s: "Source (exampleIncident 6 ''NCDOT'' ''not json'') = ''NCDOT''"
    "Source (exampleIncident 9 ''Waze'' ''not json'') = ''Waze''"
    "Source (exampleIncident 7 ''RWECC'' ''not json'') = ''RWECC''"
    "Details (exampleIncident 7 ''RWECC'' ''not json'') =
       Details (exampleIncident 6 ''NCDOT'' ''not json'')"
    by (simp_all add: exampleIncident_def)
  show ?thesis
    using n m post "open" s
      details_parse_failure_degrades [of exampleLib "exampleIncident 6 ''NCDOT'' ''not json''"
        exampleEnv "''https://discord.example/hook''" "[]"]
      details_parse_failure_degrades [of exampleLib "exampleIncident 9 ''Waze'' ''not json''"
        exampleEnv "''https://discord.example/hook''" "[]"]
      details_parse_failure_degrades [of exampleLib "exampleIncident 7 ''RWECC'' ''not json''"
        exampleEnv "''https://discord.example/hook''" "[]"]
    by simp
qed

end
